theory Spec2Isabelle
  imports Complex_Main "HOL-Library.Char_ord" "HOL-Library.List_Lexorder" "HOL-Library.AList"
    "HOL-Library.Log_Nat"
begin

section \<open>Strings and numbers\<close>

text \<open>
  \<open>String(n)\<close> for an integer \<open>n\<close>: its decimal digits, with a minus sign when negative.
  Strings are lists of bytes; a character outside ASCII is written as its UTF-8 bytes.
\<close>

definition digit_char :: "nat \<Rightarrow> char" where
  "digit_char n = ''0123456789'' ! n"

fun showNat :: "nat \<Rightarrow> string" where
  "showNat n = (if n < 10 then [digit_char n] else showNat (n div 10) @ [digit_char (n mod 10)])"

declare showNat.simps [simp del]

definition toString :: "int \<Rightarrow> string" where
  "toString n = (if n < 0 then CHR ''-'' # showNat (nat (- n)) else showNat (nat n))"

text \<open>\<open>s.padStart(n, c)\<close> with a one-character pad string: a string already long enough is kept.\<close>

definition padStart :: "nat \<Rightarrow> char \<Rightarrow> string \<Rightarrow> string" where
  "padStart n c s = replicate (n - length s) c @ s"

text \<open>
  A JavaScript number is an IEEE 754 binary64 value. The finite ones are modelled by the
  real number they denote, and every division, multiplication and addition that can be
  inexact is followed by \<open>fl\<close>, the rounding to the nearest value with a 53-bit
  significand, ties to the even significand. Overflow and subnormal values are not
  modelled (the numbers that the program rounds lie between 1/365 and 100); sums and differences
  of small integers are exact and carry no rounding.
\<close>

definition log2floor :: "real \<Rightarrow> int" where
  "log2floor x =
     (if 1 \<le> x then int (floorlog 2 (nat \<lfloor>x\<rfloor>)) - 1
      else - int (floorlog 2 (nat (\<lceil>1 / x\<rceil> - 1))))"

definition pow2 :: "int \<Rightarrow> real" where
  "pow2 e = (if 0 \<le> e then 2 ^ nat e else 1 / 2 ^ nat (- e))"

definition roundTiesToEven :: "real \<Rightarrow> int" where
  "roundTiesToEven x =
     (let f = \<lfloor>x\<rfloor>; r = x - of_int f
      in if r < 1 / 2 then f else if 1 / 2 < r then f + 1 else if even f then f else f + 1)"

definition fl :: "real \<Rightarrow> real" where
  "fl x =
     (if x = 0 then 0
      else let a = \<bar>x\<bar>; u = pow2 (log2floor a - 52)
           in sgn x * (of_int (roundTiesToEven (a / u)) * u))"

text \<open>A number that may be \<open>NaN\<close>; every comparison with \<open>NaN\<close> is false.\<close>

datatype number = NaN | Num real

fun js_gt :: "number \<Rightarrow> number \<Rightarrow> bool" where
  "js_gt (Num a) (Num b) = (a > b)"
| "js_gt _ _ = False"

fun js_lt :: "number \<Rightarrow> number \<Rightarrow> bool" where
  "js_lt (Num a) (Num b) = (a < b)"
| "js_lt _ _ = False"

fun js_add :: "number \<Rightarrow> real \<Rightarrow> number" where
  "js_add (Num a) b = Num (fl (a + b))"
| "js_add NaN b = NaN"

fun js_sub :: "number \<Rightarrow> real \<Rightarrow> number" where
  "js_sub (Num a) b = Num (fl (a - b))"
| "js_sub NaN b = NaN"

section \<open>Dates and the host\<close>

text \<open>
  A \<open>Date\<close> is its time value, the milliseconds since 1970-01-01T00:00Z, as in
  ECMAScript. The dates of the program come from the present clock and lie within a
  year of it, far inside the range of time values, so they are valid and \<open>TimeClip\<close>
  leaves them as they are; only the dates built from the keys of a history can be
  invalid.
\<close>

type_synonym Date = int

definition msPerDay :: int where
  "msPerDay = 86400000"

definition Day :: "int \<Rightarrow> int" where
  "Day t = t div msPerDay"

definition TimeWithinDay :: "int \<Rightarrow> int" where
  "TimeWithinDay t = t mod msPerDay"

definition MakeDate :: "int \<Rightarrow> int \<Rightarrow> int" where
  "MakeDate dy tm = dy * msPerDay + tm"

definition TimeClip :: "int \<Rightarrow> Date option" where
  "TimeClip t = (if \<bar>t\<bar> > 8640000000000000 then None else Some t)"

text \<open>
  What the program takes from the JavaScript engine it runs on, as parameters of the
  model: the time zone, by the two readings of ECMAScript's \<open>LocalTZA\<close>, and the
  conversion \<open>Number\<close> of a string. \<open>LocalTZA_utc h t\<close> is the offset of local time at the
  time value \<open>t\<close>; \<open>LocalTZA_local h t\<close> is the offset by which the local time \<open>t\<close> is
  read, the offset before the transition when a clock change skips or repeats \<open>t\<close>.
  \<open>Number\<close> gives the finite value of a string or \<open>NaN\<close>; an infinite value counts as
  \<open>NaN\<close>, which makes no difference to a date built from it.
\<close>

record host =
  LocalTZA_utc :: "int \<Rightarrow> int"
  LocalTZA_local :: "int \<Rightarrow> int"
  Number :: "string \<Rightarrow> number"

definition LocalTime :: "host \<Rightarrow> int \<Rightarrow> int" where
  "LocalTime h t = t + LocalTZA_utc h t"

definition UTC :: "host \<Rightarrow> int \<Rightarrow> int" where
  "UTC h t = t - LocalTZA_local h t"

text \<open>
  The civil date (year, month 1..12, day of month) of a day number. Days are counted
  from 0000-03-01, split into 400-year eras of 146097 days, centuries of 36524 days,
  4-year cycles of 1461 days and years of 365 days; the leap day is the last day of
  its cycle, century or era, which is why the two quotients are capped at 3.
\<close>

definition civil :: "int \<Rightarrow> int \<times> int \<times> int" where
  "civil z =
     (let n = z + 719468;
          era = n div 146097;
          doe = n mod 146097;
          c = min 3 (doe div 36524);
          doc = doe - 36524 * c;
          q = doc div 1461;
          doq = doc mod 1461;
          yr = min 3 (doq div 365);
          doy = doq - 365 * yr;
          mp = (5 * doy + 2) div 153;
          d = doy - (153 * mp + 2) div 5 + 1;
          m = (if mp < 10 then mp + 3 else mp - 9);
          y = 400 * era + 100 * c + 4 * q + yr + (if m \<le> 2 then 1 else 0)
      in (y, m, d))"

definition getFullYear :: "host \<Rightarrow> Date \<Rightarrow> int" where
  "getFullYear h t = fst (civil (Day (LocalTime h t)))"

text \<open>\<open>getMonth\<close> is zero-based, as in JavaScript.\<close>

definition getMonth :: "host \<Rightarrow> Date \<Rightarrow> int" where
  "getMonth h t = fst (snd (civil (Day (LocalTime h t)))) - 1"

definition getDate :: "host \<Rightarrow> Date \<Rightarrow> int" where
  "getDate h t = snd (snd (civil (Day (LocalTime h t))))"

text \<open>Day of the week, 0 = Sunday; 1970-01-01 was a Thursday.\<close>

definition getDay :: "host \<Rightarrow> Date \<Rightarrow> int" where
  "getDay h t = (Day (LocalTime h t) + 4) mod 7"

text \<open>
  ECMAScript's \<open>MakeDay(year, month, date)\<close>: the day number of the given date, where
  the zero-based month and the day of the month may lie outside their ranges and carry
  over into the neighbouring months and years.
\<close>

definition MakeDay :: "int \<Rightarrow> int \<Rightarrow> int \<Rightarrow> int" where
  "MakeDay year month dt =
     (let ym = year + month div 12;
          mn = month mod 12;
          y = (if mn < 2 then ym - 1 else ym);
          mp = (if mn < 2 then mn + 10 else mn - 2);
          era = y div 400;
          yoe = y mod 400;
          doy = (153 * mp + 2) div 5;
          doe = 365 * yoe + yoe div 4 - yoe div 100 + doy
      in 146097 * era + doe - 719468 + dt - 1)"

text \<open>
  \<open>d.setDate(v)\<close> keeps the local year, month and time of day of \<open>d\<close>, replaces the day
  of the month and reads the resulting local time back into a time value. When the
  zone skips that local time on the new day, the date is later than asked for.
\<close>

definition setDate :: "host \<Rightarrow> Date \<Rightarrow> int \<Rightarrow> Date" where
  "setDate h t v =
     UTC h (MakeDate (MakeDay (getFullYear h t) (getMonth h t) v)
                     (TimeWithinDay (LocalTime h t)))"

text \<open>
  The idiom \<^verbatim>\<open>const d = new Date(today); d.setDate(today.getDate() - i)\<close> that every
  window scan of the program uses.
\<close>

definition daysAgo :: "host \<Rightarrow> Date \<Rightarrow> int \<Rightarrow> Date" where
  "daysAgo h today i = setDate h today (getDate h today - i)"

definition getDateKey :: "host \<Rightarrow> Date \<Rightarrow> string" where
  "getDateKey h date =
     (let y = getFullYear h date;
          m = padStart 2 CHR ''0'' (toString (getMonth h date + 1));
          d = padStart 2 CHR ''0'' (toString (getDate h date))
      in toString y @ ''-'' @ m @ ''-'' @ d)"

text \<open>
  The words of the specification about calendar days: the key of the day with a given
  day number (the count of days since 1970-01-01), its zero-based month and its day of
  the week; the local day of a date; the local time that a date shows after its local
  fields were set to the local time \<open>x\<close>; and that the local time of \<open>today\<close> exists,
  that is, is not skipped, on each of the \<open>n\<close> days that end today.
\<close>

definition dayKey :: "int \<Rightarrow> string" where
  "dayKey dn =
     (let y = fst (civil dn);
          m = padStart 2 CHR ''0'' (toString (fst (snd (civil dn))));
          d = padStart 2 CHR ''0'' (toString (snd (snd (civil dn))))
      in toString y @ ''-'' @ m @ ''-'' @ d)"

definition monthOfDay :: "int \<Rightarrow> int" where
  "monthOfDay dn = fst (snd (civil dn)) - 1"

definition weekDay :: "int \<Rightarrow> int" where
  "weekDay dn = (dn + 4) mod 7"

definition localDay :: "host \<Rightarrow> Date \<Rightarrow> int" where
  "localDay h t = Day (LocalTime h t)"

definition shown :: "host \<Rightarrow> int \<Rightarrow> int" where
  "shown h x = LocalTime h (UTC h x)"

definition regular :: "host \<Rightarrow> Date \<Rightarrow> nat \<Rightarrow> bool" where
  "regular h today n =
     list_all (\<lambda>i. shown h (LocalTime h today - int i * msPerDay) =
                     LocalTime h today - int i * msPerDay) [0..<n]"

section \<open>Data model\<close>

record MoodOption =
  emoji :: string
  label :: string
  color :: string

record MoodEntry = MoodOption +
  timestamp :: string

text \<open>
  \<open>MoodData\<close> is a JavaScript object used as a dictionary from date-keys to entries. It is
  an association list in insertion order; \<open>data[k]\<close> is \<^term>\<open>map_of data k\<close>, and an
  entry, being an object, is always truthy.
\<close>

type_synonym MoodData = "(string \<times> MoodEntry) list"

record HeatCell =
  dateKey :: string
  col :: int
  row :: int

definition MOODS :: "MoodOption list" where
  "MOODS =
     [\<lparr>emoji = [CHR 0xF0, CHR 0x9F, CHR 0x98, CHR 0x84], label = ''Joyful'', color = ''#FFD700''\<rparr>,
      \<lparr>emoji = [CHR 0xF0, CHR 0x9F, CHR 0x98, CHR 0x8A], label = ''Good'', color = ''#86EFAC''\<rparr>,
      \<lparr>emoji = [CHR 0xF0, CHR 0x9F, CHR 0x98, CHR 0x90], label = ''Neutral'', color = ''#9CA3AF''\<rparr>,
      \<lparr>emoji = [CHR 0xF0, CHR 0x9F, CHR 0x98, CHR 0x94], label = ''Low'', color = ''#93C5FD''\<rparr>,
      \<lparr>emoji = [CHR 0xF0, CHR 0x9F, CHR 0x98, CHR 0xA2], label = ''Sad'', color = ''#60A5FA''\<rparr>,
      \<lparr>emoji = [CHR 0xF0, CHR 0x9F, CHR 0x98, CHR 0xA1], label = ''Angry'', color = ''#EF4444''\<rparr>,
      \<lparr>emoji = [CHR 0xF0, CHR 0x9F, CHR 0x98, CHR 0xB0], label = ''Anxious'', color = ''#FB923C''\<rparr>,
      \<lparr>emoji = [CHR 0xF0, CHR 0x9F, CHR 0x98, CHR 0xB4], label = ''Tired'', color = ''#A78BFA''\<rparr>]"

text \<open>
  \<open>POSITIVITY\<close> is an object literal, so \<open>POSITIVITY[k]\<close> also finds the properties that
  every object inherits from \<open>Object.prototype\<close>; those are functions or objects, never
  \<open>undefined\<close>.
\<close>

datatype property = Undefined | Own real | Inherited

definition POSITIVITY_own :: "(string \<times> real) list" where
  "POSITIVITY_own =
     [(''Joyful'', 8), (''Good'', 7), (''Neutral'', 5), (''Low'', 4), (''Tired'', 4),
      (''Anxious'', 3), (''Sad'', 2), (''Angry'', 1)]"

definition Object_prototype_keys :: "string list" where
  "Object_prototype_keys =
     [''constructor'', ''__defineGetter__'', ''__defineSetter__'', ''hasOwnProperty'',
      ''__lookupGetter__'', ''__lookupSetter__'', ''isPrototypeOf'', ''propertyIsEnumerable'',
      ''toString'', ''valueOf'', ''__proto__'', ''toLocaleString'']"

definition POSITIVITY :: "string \<Rightarrow> property" where
  "POSITIVITY k =
     (case map_of POSITIVITY_own k of
        Some v \<Rightarrow> Own v
      | None \<Rightarrow> if k \<in> set Object_prototype_keys then Inherited else Undefined)"

definition DAYS_IN_HEATMAP :: nat where
  "DAYS_IN_HEATMAP = 84"

section \<open>Streaks\<close>

text \<open>
  Every function that calls \<open>new Date()\<close> takes the value of that call, the date
  \<open>today\<close>, as an argument after the host; the wall clock itself is threaded through
  the calls in the section on the renders.
\<close>

function streakLoop :: "host \<Rightarrow> Date \<Rightarrow> MoodData \<Rightarrow> nat \<Rightarrow> nat \<Rightarrow> nat" where
  "streakLoop h today data i streak =
     (if i < 365 then
        (if map_of data (getDateKey h (daysAgo h today (int i))) \<noteq> None
         then streakLoop h today data (i + 1) (streak + 1)
         else streak)
      else streak)"
  by pat_completeness auto
termination
  by (relation "measure (\<lambda>(h, today, data, i, streak). 365 - i)") auto

declare streakLoop.simps [simp del]

definition computeCurrentStreak :: "host \<Rightarrow> Date \<Rightarrow> MoodData \<Rightarrow> nat" where
  "computeCurrentStreak h today data =
     (let todayKey = getDateKey h today;
          startOffset = (if map_of data todayKey \<noteq> None then 0 else 1)
      in streakLoop h today data startOffset 0)"

text \<open>The key that the program computes for the offset \<open>j\<close> is in the history.\<close>

definition scanned :: "host \<Rightarrow> Date \<Rightarrow> MoodData \<Rightarrow> nat \<Rightarrow> bool" where
  "scanned h today data j = (map_of data (getDateKey h (daysAgo h today (int j))) \<noteq> None)"

text \<open>
  The words of the specification for the streak scan, for the day number \<open>dn\<close> of
  today: the key of the day \<open>i\<close> days before today is in the history; the scan starts at
  today when today is logged and at yesterday otherwise; the streak is the number of
  consecutive days in the history from the start on, below the cap of 365.
\<close>

definition present :: "MoodData \<Rightarrow> int \<Rightarrow> nat \<Rightarrow> bool" where
  "present data dn i = (map_of data (dayKey (dn - int i)) \<noteq> None)"

definition scanStart :: "MoodData \<Rightarrow> int \<Rightarrow> nat" where
  "scanStart data dn = (if present data dn 0 then 0 else 1)"

definition streakOfDay :: "int \<Rightarrow> MoodData \<Rightarrow> nat" where
  "streakOfDay dn data = length (takeWhile (present data dn) [scanStart data dn..<365])"

text \<open>\<open>s.split(c)\<close>: the pieces between the occurrences of \<open>c\<close>, at least one piece.\<close>

fun split :: "char \<Rightarrow> string \<Rightarrow> string list" where
  "split c [] = [[]]"
| "split c (x # xs) =
     (if x = c then [] # split c xs
      else (case split c xs of t # ts \<Rightarrow> (x # t) # ts | [] \<Rightarrow> [[x]]))"

text \<open>
  \<open>new Date(year, month, date)\<close> on finite numbers: each is truncated to an integer, a
  year from 0 to 99 means 1900 + year, month and day carry over as in \<^const>\<open>MakeDay\<close>,
  the local midnight is read back into a time value, and a time value out of range
  (beyond 100 million days from 1970, about the year 275760) makes the date invalid
  (\<open>None\<close>). An engine may also give an invalid date for a year outside its own
  range whose day argument would bring the time value back into range; the statements
  about the best streak hold whatever the keys of a history parse to.
\<close>

definition truncate :: "real \<Rightarrow> int" where
  "truncate x = (if 0 \<le> x then \<lfloor>x\<rfloor> else \<lceil>x\<rceil>)"

definition newDate3 :: "host \<Rightarrow> real \<Rightarrow> real \<Rightarrow> real \<Rightarrow> Date option" where
  "newDate3 h y m d =
     (let yi = truncate y;
          yr = (if 0 \<le> yi \<and> yi \<le> 99 then 1900 + yi else yi)
      in TimeClip (UTC h (MakeDate (MakeDay yr (truncate m) (truncate d)) 0)))"

text \<open>
  \<^verbatim>\<open>const [y, m, d] = key.split('-').map(Number); new Date(y, m - 1, d)\<close>: an invalid
  date when one of the first three pieces is missing or \<open>NaN\<close>.
\<close>

definition parseKey :: "host \<Rightarrow> string \<Rightarrow> Date option" where
  "parseKey h k =
     (case map (Number h) (split CHR ''-'' k) of
        Num y # Num m # Num d # _ \<Rightarrow> newDate3 h y (fl (m - 1)) d
      | _ \<Rightarrow> None)"

text \<open>
  \<open>Math.round((curr.getTime() - prev.getTime()) / 86_400_000)\<close>, the quotient rounded
  to the nearest integer and upwards from a half; \<open>NaN\<close> (\<open>None\<close>) when a date is
  invalid. The quotient is taken exactly: its binary64 rounding cannot move a value
  across the halves next to 1, the only result that the program asks for.
\<close>

definition diffDays :: "Date option \<Rightarrow> Date option \<Rightarrow> int option" where
  "diffDays prevDate currDate =
     (case (prevDate, currDate) of
        (Some p, Some c) \<Rightarrow> Some \<lfloor>real_of_int (c - p) / 86400000 + 1 / 2\<rfloor>
      | _ \<Rightarrow> None)"

text \<open>
  \<open>Object.keys(data).sort()\<close> orders the keys as strings, here by their bytes. The loop
  over \<open>i = 1, ..., keys.length - 1\<close> carries \<open>(best, current)\<close>.
\<close>

definition bestLoop :: "host \<Rightarrow> string list \<Rightarrow> nat \<times> nat" where
  "bestLoop h keys =
     fold (\<lambda>i (best, current).
             if diffDays (parseKey h (keys ! (i - 1))) (parseKey h (keys ! i)) = Some 1
             then (let current' = current + 1
                   in (if current' > best then current' else best, current'))
             else (best, 1))
          [1..<length keys] (1, 1)"

text \<open>
  \<open>computeBestStreak\<close> returns 0 for a history without keys before it reads the clock;
  \<open>today\<close> is the reading of the call of \<open>computeCurrentStreak\<close> that it makes otherwise.
\<close>

definition computeBestStreak :: "host \<Rightarrow> Date \<Rightarrow> MoodData \<Rightarrow> nat" where
  "computeBestStreak h today data =
     (let keys = sort (map fst data)
      in if length keys = 0 then 0
         else (let best = fst (bestLoop h keys);
                   cs = computeCurrentStreak h today data
               in max best cs))"

section \<open>Logging a mood\<close>

text \<open>
  \<open>handleMoodSelect\<close> reads the clock twice: \<open>now\<close> is the date that \<open>getTodayKey()\<close>
  sees and \<open>isoString\<close> the result of \<open>new Date().toISOString()\<close>. The object spread with
  the computed key replaces the entry of an existing key in place and appends a new key.
\<close>

definition handleMoodSelect ::
    "host \<Rightarrow> Date \<Rightarrow> string \<Rightarrow> MoodOption \<Rightarrow> MoodData \<Rightarrow> MoodData" where
  "handleMoodSelect h now isoString mood moodData =
     (let today = getDateKey h now;
          entry = \<lparr>emoji = emoji mood, label = label mood, color = color mood,
                   timestamp = isoString\<rparr>
      in AList.update today entry moodData)"

section \<open>Weekly trend\<close>

definition getWeekEntries :: "host \<Rightarrow> Date \<Rightarrow> MoodData \<Rightarrow> nat \<Rightarrow> MoodEntry list" where
  "getWeekEntries h today data startDaysAgo =
     fold (\<lambda>i entries.
             case map_of data (getDateKey h (daysAgo h today (int i))) of
               None \<Rightarrow> entries
             | Some entry \<Rightarrow> entries @ [entry])
          [startDaysAgo..<startDaysAgo + 7] []"

text \<open>
  The accumulator of the \<open>reduce\<close> in \<open>avgPositivity\<close>: a number, or a string once an
  inherited property (a function or an object) has been added to it; a string plus
  anything stays a string, and such a string divided by a number is \<open>NaN\<close>.
\<close>

datatype accumulator = NumberAcc real | StringAcc

definition addScore :: "MoodEntry \<Rightarrow> accumulator \<Rightarrow> accumulator" where
  "addScore e acc =
     (case acc of
        StringAcc \<Rightarrow> StringAcc
      | NumberAcc s \<Rightarrow>
          (case POSITIVITY (label e) of
             Own v \<Rightarrow> NumberAcc (s + v)
           | Undefined \<Rightarrow> NumberAcc (s + 5)
           | Inherited \<Rightarrow> StringAcc))"

definition avgPositivity :: "MoodEntry list \<Rightarrow> number" where
  "avgPositivity entries =
     (if length entries = 0 then Num 0
      else (case fold addScore entries (NumberAcc 0) of
              NumberAcc s \<Rightarrow> Num (fl (s / real (length entries)))
            | StringAcc \<Rightarrow> NaN))"

text \<open>
  The six branches of the trend determination, named after what they display:
  \<open>NoData\<close> "Start logging your moods to see weekly insights!",
  \<open>NothingThisWeek\<close> "No entries yet this week",
  \<open>KeepLogging\<close> "Keep logging to unlock week-over-week comparisons!",
  \<open>Upward\<close> "You're on an upward trend!", \<open>Downward\<close> "Rough patch?",
  \<open>Steady\<close> "Steady vibes this week.".
\<close>

datatype trend = NoData | NothingThisWeek | KeepLogging | Upward | Downward | Steady

definition trendDetermination ::
    "MoodEntry list \<Rightarrow> MoodEntry list \<Rightarrow> number \<Rightarrow> number \<Rightarrow> trend" where
  "trendDetermination currentWeekEntries prevWeekEntries currentAvg prevAvg =
     (if length currentWeekEntries = 0 \<and> length prevWeekEntries = 0 then NoData
      else if length currentWeekEntries = 0 then NothingThisWeek
      else if length prevWeekEntries = 0 then KeepLogging
      else if js_gt currentAvg (js_add prevAvg (1 / 2)) then Upward
      else if js_lt currentAvg (js_sub prevAvg (1 / 2)) then Downward
      else Steady)"

text \<open>The trend of one render in which both weeks are taken at the reading \<open>today\<close>.\<close>

definition trendOf :: "host \<Rightarrow> Date \<Rightarrow> MoodData \<Rightarrow> trend" where
  "trendOf h today moodData =
     (let currentWeekEntries = getWeekEntries h today moodData 0;
          prevWeekEntries = getWeekEntries h today moodData 7;
          currentAvg = avgPositivity currentWeekEntries;
          prevAvg = avgPositivity prevWeekEntries
      in trendDetermination currentWeekEntries prevWeekEntries currentAvg prevAvg)"

text \<open>
  The words of the specification for the trend, for the day number \<open>dn\<close> of today: the
  records of the seven days from \<open>startDaysAgo\<close> on, the catalog score of a label with 5
  for a label that is not in the catalog, the mean score of a week with 0 for an empty
  week, and the verdict by the table.
\<close>

definition weekRecords :: "int \<Rightarrow> MoodData \<Rightarrow> nat \<Rightarrow> MoodEntry list" where
  "weekRecords dn data startDaysAgo =
     List.map_filter (\<lambda>i. map_of data (dayKey (dn - int i)))
       [startDaysAgo..<startDaysAgo + 7]"

definition score :: "string \<Rightarrow> real" where
  "score l = (case map_of POSITIVITY_own l of Some v \<Rightarrow> v | None \<Rightarrow> 5)"

definition meanScore :: "MoodEntry list \<Rightarrow> real" where
  "meanScore entries =
     (if entries = [] then 0
      else sum_list (map (\<lambda>e. score (label e)) entries) / real (length entries))"

definition verdictByTable :: "int \<Rightarrow> MoodData \<Rightarrow> trend" where
  "verdictByTable dn data =
     (let currentWeek = weekRecords dn data 0;
          prevWeek = weekRecords dn data 7
      in if currentWeek = [] \<and> prevWeek = [] then NoData
         else if currentWeek = [] then NothingThisWeek
         else if prevWeek = [] then KeepLogging
         else if meanScore currentWeek > meanScore prevWeek + 1 / 2 then Upward
         else if meanScore currentWeek < meanScore prevWeek - 1 / 2 then Downward
         else Steady)"

section \<open>Thirty-day frequency\<close>

record FreqItem =
  mood :: MoodOption
  count :: nat

text \<open>
  \<open>counts\<close> is a dictionary from labels to tallies; \<open>counts[k] || 0\<close> reads a missing
  tally as 0. Only the tallies of the catalog's labels are read afterwards.
\<close>

definition countOf :: "(string \<rightharpoonup> nat) \<Rightarrow> string \<Rightarrow> nat" where
  "countOf counts k = (case counts k of None \<Rightarrow> 0 | Some c \<Rightarrow> c)"

definition tally30 :: "host \<Rightarrow> Date \<Rightarrow> MoodData \<Rightarrow> (string \<rightharpoonup> nat)" where
  "tally30 h today data =
     fold (\<lambda>i counts.
             case map_of data (getDateKey h (daysAgo h today (int i))) of
               None \<Rightarrow> counts
             | Some entry \<Rightarrow> counts(label entry \<mapsto> countOf counts (label entry) + 1))
          [0..<30] Map.empty"

text \<open>
  The comparator \<open>(a, b) => b.count - a.count\<close> of the stable \<open>Array.prototype.sort\<close>
  orders by descending count: a stable sort ascending in the negated count.
\<close>

definition getFrequencyIn30Days :: "host \<Rightarrow> Date \<Rightarrow> MoodData \<Rightarrow> FreqItem list" where
  "getFrequencyIn30Days h today data =
     (let counts = tally30 h today data
      in sort_key (\<lambda>m. - int (count m))
           (filter (\<lambda>m. count m > 0)
              (map (\<lambda>mood. \<lparr>mood = mood, count = countOf counts (label mood)\<rparr>) MOODS)))"

text \<open>
  The words of the specification, for the day number \<open>dn\<close> of today: the number of days
  among the 30 days ending today whose record carries the label \<open>l\<close>; the catalog entries
  that occur at least once, in catalog order, each with that number; and the frequency
  list, their stable rearrangement by descending count.
\<close>

definition occurrences :: "int \<Rightarrow> MoodData \<Rightarrow> string \<Rightarrow> nat" where
  "occurrences dn data l =
     length (filter (\<lambda>i. map_option label (map_of data (dayKey (dn - int i))) = Some l)
                    [0..<30])"

definition occurring :: "int \<Rightarrow> MoodData \<Rightarrow> FreqItem list" where
  "occurring dn data =
     map (\<lambda>m. \<lparr>mood = m, count = occurrences dn data (label m)\<rparr>)
         (filter (\<lambda>m. occurrences dn data (label m) > 0) MOODS)"

definition frequencyOfDay :: "int \<Rightarrow> MoodData \<Rightarrow> FreqItem list" where
  "frequencyOfDay dn data = sort_key (\<lambda>m. - int (count m)) (occurring dn data)"

text \<open>\<open>frequency30.reduce((max, m) => Math.max(max, m.count), 1)\<close>\<close>

definition maxFreq :: "FreqItem list \<Rightarrow> nat" where
  "maxFreq frequency30 = fold (\<lambda>m mx. max mx (count m)) frequency30 1"

text \<open>The width of a bar in percent: \<open>Math.max((count / maxFreq) * 100, 10)\<close>.\<close>

definition barWidth :: "nat \<Rightarrow> nat \<Rightarrow> real" where
  "barWidth cnt mx = max (fl (fl (real cnt / real mx) * 100)) 10"

definition barWidths :: "FreqItem list \<Rightarrow> real list" where
  "barWidths frequency30 = map (\<lambda>m. barWidth (count m) (maxFreq frequency30)) frequency30"

section \<open>Heatmap\<close>

type_synonym Grid = "HeatCell option list list"

definition placeCell :: "host \<Rightarrow> Date \<Rightarrow> int \<Rightarrow> nat \<Rightarrow> Grid \<Rightarrow> Grid" where
  "placeCell h today todayDow i grid =
     (let d = daysAgo h today (int i);
          pos = todayDow + 77 - int i
      in if pos < 0 then grid
         else (let c = pos div 7;
                   r = pos mod 7
               in if c \<ge> 0 \<and> c < 12 \<and> r \<ge> 0 \<and> r < 7
                  then grid[nat r := (grid ! nat r)[nat c :=
                         Some \<lparr>dateKey = getDateKey h d, col = c, row = r\<rparr>]]
                  else grid))"

definition buildHeatmapCells :: "host \<Rightarrow> Date \<Rightarrow> Grid" where
  "buildHeatmapCells h today =
     (let todayDow = getDay h today;
          grid = replicate 7 (replicate 12 None)
      in fold (placeCell h today todayDow) [0..<DAYS_IN_HEATMAP] grid)"

text \<open>
  The grid after the offsets \<open>0, ..., n - 1\<close> have been handled, for a day of the week
  \<open>dow\<close>: seven rows of twelve cells, and the cell in row \<open>r\<close> and column \<open>c\<close>
  is filled exactly when its offset \<open>dow + 77 - (7 c + r)\<close> is one of them, with the key
  that the program computes for that offset.
\<close>

definition gridInv :: "host \<Rightarrow> Date \<Rightarrow> int \<Rightarrow> nat \<Rightarrow> Grid \<Rightarrow> bool" where
  "gridInv h today dow n G \<longleftrightarrow>
     length G = 7 \<and>
     (\<forall>r<7. length (G ! r) = 12 \<and>
        (\<forall>c<12. G ! r ! c =
           (let i = dow + 77 - (7 * int c + int r)
            in if 0 \<le> i \<and> i < int n
               then Some \<lparr>dateKey = getDateKey h (daysAgo h today i), col = int c, row = int r\<rparr>
               else None)))"

text \<open>
  The words of the specification: the grid of the 84 days that end on the day with the
  number \<open>dn\<close>, each cell with the key of its own day.
\<close>

definition gridOfDay :: "int \<Rightarrow> Grid" where
  "gridOfDay dn =
     map (\<lambda>r. map (\<lambda>c. let i = weekDay dn + 77 - (7 * int c + int r)
                        in if 0 \<le> i \<and> i < 84
                           then Some \<lparr>dateKey = dayKey (dn - i), col = int c, row = int r\<rparr>
                           else None)
                  [0..<12])
         [0..<7]"

text \<open>
  \<open>toLocaleDateString('en-US', { month: 'short' })\<close> of a date whose zero-based month
  is \<open>m\<close>.
\<close>

definition monthShort :: "int \<Rightarrow> string" where
  "monthShort m =
     [''Jan'', ''Feb'', ''Mar'', ''Apr'', ''May'', ''Jun'',
      ''Jul'', ''Aug'', ''Sep'', ''Oct'', ''Nov'', ''Dec''] ! nat m"

text \<open>
  The inner loop over the rows of a column skips (\<open>continue\<close>) the rows outside the
  window and leaves (\<open>break\<close>) after the first row inside it: \<open>firstRow\<close> is that row.
  A label is a pair of its text and its column; the state of the outer loop is the list
  of labels and \<open>lastMonth\<close>.
\<close>

definition agoOf :: "int \<Rightarrow> nat \<Rightarrow> nat \<Rightarrow> int" where
  "agoOf todayDow c r = todayDow + 77 - (int c * 7 + int r)"

definition firstRow :: "int \<Rightarrow> nat \<Rightarrow> nat option" where
  "firstRow todayDow c =
     find (\<lambda>r. \<not> (agoOf todayDow c r < 0 \<or> agoOf todayDow c r \<ge> int DAYS_IN_HEATMAP)) [0..<7]"

definition labelStep ::
    "host \<Rightarrow> Date \<Rightarrow> int \<Rightarrow> nat \<Rightarrow> (string \<times> int) list \<times> int \<Rightarrow> (string \<times> int) list \<times> int" where
  "labelStep h today todayDow c st =
     (case firstRow todayDow c of
        None \<Rightarrow> st
      | Some r \<Rightarrow>
          (let d = daysAgo h today (agoOf todayDow c r);
               month = getMonth h d
           in if month \<noteq> snd st then (fst st @ [(monthShort month, int c)], month) else st))"

definition getMonthLabels :: "host \<Rightarrow> Date \<Rightarrow> (string \<times> int) list" where
  "getMonthLabels h today =
     (let todayDow = getDay h today
      in fst (fold (labelStep h today todayDow) [0..<12] ([], - 1)))"

text \<open>
  The words of the specification for the month labels: the month of a column is the
  month of the date that the program computes for the column's first row inside the
  window, which is always row 0; a column emits a label when it is column 0 or differs
  in month from the column before. For the day number \<open>dn\<close> of today, a month appears
  in a column when one of the column's days inside the window lies in it, and the
  labels of the day are those of the calendar months of the columns.
\<close>

definition columnMonth :: "host \<Rightarrow> Date \<Rightarrow> nat \<Rightarrow> int" where
  "columnMonth h today c = getMonth h (daysAgo h today (agoOf (getDay h today) c 0))"

definition emits :: "host \<Rightarrow> Date \<Rightarrow> nat \<Rightarrow> bool" where
  "emits h today c = (c = 0 \<or> columnMonth h today c \<noteq> columnMonth h today (c - 1))"

definition monthAppears :: "int \<Rightarrow> int \<Rightarrow> nat \<Rightarrow> bool" where
  "monthAppears dn m c =
     list_ex (\<lambda>r. 0 \<le> agoOf (weekDay dn) c r \<and> agoOf (weekDay dn) c r < 84 \<and>
                   monthOfDay (dn - agoOf (weekDay dn) c r) = m) [0..<7]"

definition firstColumnOfMonth :: "int \<Rightarrow> int \<Rightarrow> nat option" where
  "firstColumnOfMonth dn m = find (monthAppears dn m) [0..<12]"

definition sundayMonth :: "int \<Rightarrow> nat \<Rightarrow> int" where
  "sundayMonth dn c = monthOfDay (dn - agoOf (weekDay dn) c 0)"

definition labelsOfDay :: "int \<Rightarrow> (string \<times> int) list" where
  "labelsOfDay dn =
     map (\<lambda>c. (monthShort (sundayMonth dn c), int c))
         (filter (\<lambda>c. c = 0 \<or> sundayMonth dn c \<noteq> sundayMonth dn (c - 1)) [0..<12])"

section \<open>The renders and the wall clock\<close>






record rendered =
  grid :: Grid
  labels :: "(string \<times> int) list"
  currentStreak :: nat
  bestStreak :: nat
  currentWeekEntries :: "MoodEntry list"
  prevWeekEntries :: "MoodEntry list"
  frequency30 :: "FreqItem list"
  todayKey :: string





section \<open>Two hosts\<close>

text \<open>
  Two values of the parameters, for the examples. \<open>digitsNumber\<close> agrees with \<open>Number\<close> on
  the strings of decimal digits and on the empty string and is \<open>NaN\<close> elsewhere; the
  keys of the examples consist of digits and hyphens. \<open>utcHost\<close> is a host whose zone is
  UTC. \<open>nuukHost\<close> has the zone America/Nuuk as it is from 2024-10-27 to 2027-03-28:
  two hours behind UTC, and one hour behind from 01:00 UTC on the last Sunday of March
  to 01:00 UTC on the last Sunday of October, so that the local times from 23:00 to
  23:59 are skipped on Saturday 2025-03-29 and on Saturday 2026-03-28.
\<close>

definition is_digit :: "char \<Rightarrow> bool" where
  "is_digit c = (c \<in> set ''0123456789'')"

definition digit_val :: "char \<Rightarrow> nat" where
  "digit_val c = of_char c - 48"

definition digitsNumber :: "string \<Rightarrow> number" where
  "digitsNumber s =
     (if list_all is_digit s then Num (real (foldl (\<lambda>a c. 10 * a + digit_val c) 0 s))
      else NaN)"

definition utcHost :: host where
  "utcHost = \<lparr>LocalTZA_utc = (\<lambda>t. 0), LocalTZA_local = (\<lambda>t. 0), Number = digitsNumber\<rparr>"

definition nuukOffset :: "int \<Rightarrow> int" where
  "nuukOffset t =
     (if t < 1743296400000 then - 7200000
      else if t < 1761440400000 then - 3600000
      else if t < 1774746000000 then - 7200000
      else if t < 1792890000000 then - 3600000
      else - 7200000)"

definition nuukHost :: host where
  "nuukHost =
     \<lparr>LocalTZA_utc = nuukOffset,
      LocalTZA_local = (\<lambda>t. nuukOffset (t + 3600000)),
      Number = digitsNumber\<rparr>"

section \<open>The calendar\<close>

text \<open>The decomposition that \<^const>\<open>civil\<close> computes, with the ranges of its parts.\<close>

lemma civil_fields:
  fixes z :: int
  obtains era c q yr doy mp where
    "z + 719468 = 146097 * era + 36524 * c + 1461 * q + 365 * yr + doy"
    "0 \<le> c" "c \<le> 3" "0 \<le> q" "q \<le> 24" "0 \<le> yr" "yr \<le> 3" "0 \<le> doy" "doy \<le> 365"
    "mp = (5 * doy + 2) div 153"
    "civil z = (400 * era + 100 * c + 4 * q + yr + (if mp < 10 then 0 else 1),
                if mp < 10 then mp + 3 else mp - 9,
                doy - (153 * mp + 2) div 5 + 1)"
proof -
  define n where "n = z + 719468"
  define era where "era = n div 146097"
  define doe where "doe = n mod 146097"
  define c where "c = min 3 (doe div 36524)"
  define doc where "doc = doe - 36524 * c"
  define q where "q = doc div 1461"
  define doq where "doq = doc mod 1461"
  define yr where "yr = min 3 (doq div 365)"
  define doy where "doy = doq - 365 * yr"
  define mp where "mp = (5 * doy + 2) div 153"
  have n: "n = 146097 * era + doe" and doe: "0 \<le> doe" "doe < 146097"
    by (simp_all add: era_def doe_def)
  have c: "0 \<le> c" "c \<le> 3" using doe by (simp_all add: c_def)
  have doc: "0 \<le> doc" "doc \<le> 36524" using doe unfolding doc_def c_def by linarith+
  have q: "0 \<le> q" "q \<le> 24" using doc unfolding q_def by linarith+
  have doq: "doc = 1461 * q + doq" "0 \<le> doq" "doq < 1461" by (simp_all add: q_def doq_def)
  have yr: "0 \<le> yr" "yr \<le> 3" using doq by (simp_all add: yr_def)
  have doy: "0 \<le> doy" "doy \<le> 365" using doq unfolding doy_def yr_def by linarith+
  have mp: "0 \<le> mp" "mp \<le> 11" using doy unfolding mp_def by linarith+
  have m: "(if mp < 10 then mp + 3 else mp - 9) \<le> 2 \<longleftrightarrow> \<not> mp < 10" using mp by auto
  have civ: "civil z = (400 * era + 100 * c + 4 * q + yr + (if mp < 10 then 0 else 1),
                if mp < 10 then mp + 3 else mp - 9,
                doy - (153 * mp + 2) div 5 + 1)"
    unfolding civil_def Let_def
    unfolding n_def[symmetric] era_def[symmetric] doe_def[symmetric] c_def[symmetric]
      doc_def[symmetric] q_def[symmetric] doq_def[symmetric] yr_def[symmetric]
      doy_def[symmetric] mp_def[symmetric]
    using m by auto
  show thesis
    by (rule that[of era c q yr doy mp])
      (use n doc_def doq doy_def c q yr doy mp_def civ in \<open>simp_all add: n_def\<close>)
qed

lemma MakeDay_parts:
  assumes "0 \<le> yoe" "yoe < 400" "0 \<le> mp" "mp \<le> 11"
  shows "MakeDay (400 * era + yoe + (if mp < 10 then 0 else 1))
           ((if mp < 10 then mp + 3 else mp - 9) - 1) v =
         146097 * era + (365 * yoe + yoe div 4 - yoe div 100 + (153 * mp + 2) div 5)
           - 719468 + v - 1"
proof -
  have e: "yoe div 400 = 0" "yoe mod 400 = yoe"
    using assms(1,2) by (simp_all add: div_pos_pos_trivial mod_pos_pos_trivial)
  show ?thesis
  proof (cases "mp < 10")
    case True
    have a: "(2 + mp) div 12 = 0" "(2 + mp) mod 12 = 2 + mp"
      using assms(3) True by simp_all
    show ?thesis
      unfolding MakeDay_def Let_def using True a assms(3) by (simp add: e)
  next
    case False
    have a: "(mp - 10) div 12 = 0" "(mp - 10) mod 12 = mp - 10" "mp - 10 < 2"
      using assms(4) False by simp_all
    show ?thesis
      unfolding MakeDay_def Let_def using False a by (simp add: e)
  qed
qed

text \<open>
  Converting a day number to its civil date and back through \<^const>\<open>MakeDay\<close> loses
  nothing, whatever day of the month is put in.
\<close>

lemma MakeDay_civil:
  "MakeDay (fst (civil z)) (fst (snd (civil z)) - 1) v = z + (v - snd (snd (civil z)))"
proof -
  obtain era c q yr doy mp where f:
    "z + 719468 = 146097 * era + 36524 * c + 1461 * q + 365 * yr + doy"
    "0 \<le> c" "c \<le> 3" "0 \<le> q" "q \<le> 24" "0 \<le> yr" "yr \<le> 3" "0 \<le> doy" "doy \<le> 365"
    "mp = (5 * doy + 2) div 153"
    "civil z = (400 * era + 100 * c + 4 * q + yr + (if mp < 10 then 0 else 1),
                if mp < 10 then mp + 3 else mp - 9,
                doy - (153 * mp + 2) div 5 + 1)"
    by (rule civil_fields)
  have mp: "0 \<le> mp" "mp \<le> 11" using f(8,9,10) by linarith+
  define yoe where "yoe = 100 * c + 4 * q + yr"
  have yoe: "0 \<le> yoe" "yoe < 400" using f(2-7) by (simp_all add: yoe_def)
  have d4: "yoe div 4 = 25 * c + q" using f(2-7) unfolding yoe_def by linarith
  have d100: "yoe div 100 = c" using f(2-7) unfolding yoe_def by linarith
  have civ: "civil z = (400 * era + yoe + (if mp < 10 then 0 else 1),
                if mp < 10 then mp + 3 else mp - 9,
                doy - (153 * mp + 2) div 5 + 1)"
    unfolding f(11) yoe_def by simp
  have "MakeDay (fst (civil z)) (fst (snd (civil z)) - 1) v = 146097 * era + (365 * yoe + yoe div 4 - yoe div 100 + (153 * mp + 2) div 5)
           - 719468 + v - 1"
    unfolding civ fst_conv snd_conv
    by (rule MakeDay_parts[OF yoe mp])
  also have "\<dots> = z + (v - (doy - (153 * mp + 2) div 5 + 1))"
    unfolding d4 d100 using f(1) by (simp add: yoe_def)
  finally show ?thesis by (simp add: civ)
qed

lemma civil_inj: "civil a = civil b \<Longrightarrow> a = b"
proof -
  assume h: "civil a = civil b"
  have "a = MakeDay (fst (civil a)) (fst (snd (civil a)) - 1) (snd (snd (civil a)))"
    by (simp add: MakeDay_civil)
  also have "\<dots> = MakeDay (fst (civil b)) (fst (snd (civil b)) - 1) (snd (snd (civil b)))"
    by (simp only: h)
  also have "\<dots> = b" by (simp add: MakeDay_civil)
  finally show ?thesis .
qed

section \<open>Day keys are injective\<close>

lemma civil_ranges:
  "1 \<le> fst (snd (civil z)) \<and> fst (snd (civil z)) \<le> 12 \<and>
   1 \<le> snd (snd (civil z)) \<and> snd (snd (civil z)) \<le> 31"
proof -
  obtain era c q yr doy mp where f:
    "z + 719468 = 146097 * era + 36524 * c + 1461 * q + 365 * yr + doy"
    "0 \<le> c" "c \<le> 3" "0 \<le> q" "q \<le> 24" "0 \<le> yr" "yr \<le> 3" "0 \<le> doy" "doy \<le> 365"
    "mp = (5 * doy + 2) div 153"
    "civil z = (400 * era + 100 * c + 4 * q + yr + (if mp < 10 then 0 else 1),
                if mp < 10 then mp + 3 else mp - 9,
                doy - (153 * mp + 2) div 5 + 1)"
    by (rule civil_fields)
  have mp: "0 \<le> mp" "mp \<le> 11" using f(8,9,10) by linarith+
  have d: "1 \<le> doy - (153 * mp + 2) div 5 + 1" "doy - (153 * mp + 2) div 5 + 1 \<le> 31"
    using f(8,9) unfolding f(10) by linarith+
  show ?thesis unfolding f(11) using mp d by auto
qed

lemma digit_val_digit_char: "k < 10 \<Longrightarrow> digit_val (digit_char k) = k"
proof -
  assume "k < 10"
  then have "k \<in> {0, 1, 2, 3, 4, 5, 6, 7, 8, 9}" by auto
  then show ?thesis by (auto simp: digit_val_def digit_char_def)
qed

lemma digit_char_inj: "i < 10 \<Longrightarrow> j < 10 \<Longrightarrow> digit_char i = digit_char j \<Longrightarrow> i = j"
  by (metis digit_val_digit_char)

lemma digit_char_not_minus: "k < 10 \<Longrightarrow> digit_char k \<noteq> CHR ''-''"
proof -
  assume "k < 10"
  then have "k \<in> {0, 1, 2, 3, 4, 5, 6, 7, 8, 9}" by auto
  then show ?thesis by (auto simp: digit_char_def)
qed

lemma readNat_showNat: "foldl (\<lambda>a c. 10 * a + digit_val c) 0 (showNat n) = n"
proof (induction n rule: showNat.induct)
  case (1 n)
  show ?case
  proof (cases "n < 10")
    case True
    then show ?thesis by (subst showNat.simps) (simp add: digit_val_digit_char)
  next
    case False
    then show ?thesis using "1.IH" by (subst showNat.simps) (simp add: digit_val_digit_char)
  qed
qed

lemma showNat_inj: "showNat a = showNat b \<Longrightarrow> a = b"
  by (metis readNat_showNat)

lemma hd_showNat: "hd (showNat n) \<noteq> CHR ''-'' \<and> showNat n \<noteq> []"
proof (induction n rule: showNat.induct)
  case (1 n)
  show ?case
  proof (cases "n < 10")
    case True
    then show ?thesis by (subst (1 2) showNat.simps) (simp add: digit_char_not_minus)
  next
    case False
    then show ?thesis using "1.IH" by (subst (1 2) showNat.simps) simp
  qed
qed

lemma toString_inj: "toString a = toString b \<Longrightarrow> a = b"
proof -
  assume h: "toString a = toString b"
  have ne: "\<And>x y. CHR ''-'' # showNat x \<noteq> showNat y"
    using hd_showNat by (metis list.sel(1))
  have ne': "\<And>x y. showNat y \<noteq> CHR ''-'' # showNat x"
    using hd_showNat by (metis list.sel(1))
  show ?thesis
  proof (cases "a < 0")
    case a: True
    show ?thesis
    proof (cases "b < 0")
      case True
      with a h have "nat (- a) = nat (- b)" by (auto simp: toString_def dest: showNat_inj)
      with a True show ?thesis by simp
    next
      case False
      with a h ne show ?thesis by (auto simp: toString_def)
    qed
  next
    case a: False
    show ?thesis
    proof (cases "b < 0")
      case True
      with a h ne' show ?thesis by (auto simp: toString_def)
    next
      case False
      with a h have "nat a = nat b" by (auto simp: toString_def dest: showNat_inj)
      with a False show ?thesis by simp
    qed
  qed
qed

lemma pad2: "0 \<le> m \<Longrightarrow> m < 100 \<Longrightarrow>
  padStart 2 CHR ''0'' (toString m) = [digit_char (nat m div 10), digit_char (nat m mod 10)]"
proof -
  assume m: "0 \<le> m" "m < 100"
  show ?thesis
  proof (cases "m < 10")
    case True
    then have "nat m < 10" by simp
    then have "showNat (nat m) = [digit_char (nat m)]" by (subst showNat.simps) simp
    moreover have "digit_char 0 = CHR ''0''" by (simp add: digit_char_def)
    ultimately show ?thesis using m True by (simp add: padStart_def toString_def)
  next
    case False
    have "nat m div 10 < 10" using m by simp
    then have "showNat (nat m div 10) = [digit_char (nat m div 10)]" by (subst showNat.simps) simp
    then have "showNat (nat m) = [digit_char (nat m div 10), digit_char (nat m mod 10)]"
      using False by (subst showNat.simps) simp
    then show ?thesis using m by (simp add: padStart_def toString_def)
  qed
qed

lemma pad2_inj:
  assumes "0 \<le> a" "a < 100" "0 \<le> b" "b < 100"
    and "padStart 2 CHR ''0'' (toString a) = padStart 2 CHR ''0'' (toString b)"
  shows "a = b"
proof -
  have "nat a div 10 < 10" "nat a mod 10 < 10" "nat b div 10 < 10" "nat b mod 10 < 10"
    using assms(1-4) by simp_all
  moreover have "digit_char (nat a div 10) = digit_char (nat b div 10)"
     "digit_char (nat a mod 10) = digit_char (nat b mod 10)"
    using assms(5) by (simp_all add: pad2 assms(1-4))
  ultimately have "nat a div 10 = nat b div 10" "nat a mod 10 = nat b mod 10"
    by (blast intro: digit_char_inj)+
  then have "nat a = nat b" by (metis div_mult_mod_eq)
  then show ?thesis using assms(1,3) by simp
qed

lemma dayKey_inj: "dayKey a = dayKey b \<Longrightarrow> a = b"
proof -
  assume h: "dayKey a = dayKey b"
  obtain ya ma da where ca: "civil a = (ya, ma, da)" by (cases "civil a") auto
  obtain yb mb db where cb: "civil b = (yb, mb, db)" by (cases "civil b") auto
  have ra: "1 \<le> ma" "ma \<le> 12" "1 \<le> da" "da \<le> 31" using civil_ranges[of a] by (simp_all add: ca)
  have rb: "1 \<le> mb" "mb \<le> 12" "1 \<le> db" "db \<le> 31" using civil_ranges[of b] by (simp_all add: cb)
  have pa: "padStart 2 CHR ''0'' (toString ma) = [digit_char (nat ma div 10), digit_char (nat ma mod 10)]"
      "padStart 2 CHR ''0'' (toString da) = [digit_char (nat da div 10), digit_char (nat da mod 10)]"
    using ra by (simp_all add: pad2)
  have pb: "padStart 2 CHR ''0'' (toString mb) = [digit_char (nat mb div 10), digit_char (nat mb mod 10)]"
      "padStart 2 CHR ''0'' (toString db) = [digit_char (nat db div 10), digit_char (nat db mod 10)]"
    using rb by (simp_all add: pad2)
  have "toString ya @ (CHR ''-'' # padStart 2 CHR ''0'' (toString ma) @ CHR ''-'' # padStart 2 CHR ''0'' (toString da))
      = toString yb @ (CHR ''-'' # padStart 2 CHR ''0'' (toString mb) @ CHR ''-'' # padStart 2 CHR ''0'' (toString db))"
    using h by (simp add: dayKey_def ca cb Let_def)
  then have "toString ya = toString yb \<and>
      padStart 2 CHR ''0'' (toString ma) = padStart 2 CHR ''0'' (toString mb) \<and>
      padStart 2 CHR ''0'' (toString da) = padStart 2 CHR ''0'' (toString db)"
    unfolding pa pb by (subst (asm) append_eq_append_conv) simp_all
  then have "ya = yb" "ma = mb" "da = db"
    using toString_inj pad2_inj ra rb by auto
  then show ?thesis using civil_inj ca cb by simp
qed

section \<open>Dates in a time zone\<close>

lemma Day_shift: "Day (x - i * msPerDay) = Day x - i"
proof -
  have "(x + (- i) * 86400000) div 86400000 = (- i) + x div (86400000 :: int)"
    by (rule div_mult_self1) simp
  then show ?thesis by (simp add: Day_def msPerDay_def)
qed

text \<open>\<open>setDate\<close> moves the local time by whole days and reads it back in the zone.\<close>

lemma setDate_eq: "setDate h t v = UTC h (LocalTime h t + (v - getDate h t) * msPerDay)"
proof -
  define lt where "lt = LocalTime h t"
  have s: "lt = Day lt * msPerDay + TimeWithinDay lt"
    by (simp add: Day_def TimeWithinDay_def)
  have "MakeDate (MakeDay (getFullYear h t) (getMonth h t) v) (TimeWithinDay lt) =
        (Day lt + (v - getDate h t)) * msPerDay + TimeWithinDay lt"
    by (simp add: MakeDate_def getFullYear_def getMonth_def getDate_def MakeDay_civil lt_def)
  also have "\<dots> = lt + (v - getDate h t) * msPerDay"
    using s by (simp add: algebra_simps)
  finally show ?thesis by (simp add: setDate_def lt_def)
qed

lemma daysAgo_eq: "daysAgo h today i = UTC h (LocalTime h today - i * msPerDay)"
  by (simp add: daysAgo_def setDate_eq)

lemma localDay_daysAgo:
  "localDay h (daysAgo h today i) = Day (shown h (LocalTime h today - i * msPerDay))"
  by (simp add: localDay_def daysAgo_eq shown_def)

lemma getDateKey_dayKey: "getDateKey h t = dayKey (localDay h t)"
  by (simp add: getDateKey_def dayKey_def getFullYear_def getMonth_def getDate_def localDay_def)

lemma getMonth_monthOfDay: "getMonth h t = monthOfDay (localDay h t)"
  by (simp add: getMonth_def monthOfDay_def localDay_def)

lemma getDay_weekDay: "getDay h t = weekDay (localDay h t)"
  by (simp add: getDay_def weekDay_def localDay_def)


lemma getDay_range: "0 \<le> getDay h today \<and> getDay h today \<le> 6"
  by (simp add: getDay_def)

text \<open>Where the local time of today exists, the date of an offset is that many days back.\<close>

lemma regular_nth:
  "regular h today n \<Longrightarrow> i < n \<Longrightarrow>
   shown h (LocalTime h today - int i * msPerDay) = LocalTime h today - int i * msPerDay"
  by (simp add: regular_def list_all_iff)


lemma localDay_daysAgo_regular:
  "regular h today n \<Longrightarrow> i < n \<Longrightarrow>
   localDay h (daysAgo h today (int i)) = localDay h today - int i"
  by (simp add: localDay_daysAgo regular_nth Day_shift) (simp add: localDay_def)

lemma key_regular:
  "regular h today n \<Longrightarrow> i < n \<Longrightarrow>
   getDateKey h (daysAgo h today (int i)) = dayKey (localDay h today - int i)"
  by (simp add: getDateKey_dayKey localDay_daysAgo_regular)

lemma month_regular:
  "regular h today n \<Longrightarrow> i < n \<Longrightarrow>
   getMonth h (daysAgo h today (int i)) = monthOfDay (localDay h today - int i)"
  by (simp add: getMonth_monthOfDay localDay_daysAgo_regular)

lemma shown_utcHost: "shown utcHost x = x"
  by (simp add: shown_def LocalTime_def UTC_def utcHost_def)

lemma regular_utcHost: "regular utcHost today n"
  by (simp add: regular_def list_all_iff shown_utcHost)

lemma localDay_utcHost: "localDay utcHost t = t div 86400000"
  by (simp add: localDay_def LocalTime_def Day_def msPerDay_def utcHost_def)

text \<open>
  The keys of the days from 2026-10-05 to 2026-11-04 (day 20761), of 2026-09-01, and of
  the days from 2026-02-27 to 2026-03-29 (day 20541).
\<close>

lemma date_keys:
  "dayKey 20761 = ''2026-11-04''"
  "dayKey 20760 = ''2026-11-03''"
  "dayKey 20759 = ''2026-11-02''"
  "dayKey 20758 = ''2026-11-01''"
  "dayKey 20757 = ''2026-10-31''"
  "dayKey 20756 = ''2026-10-30''"
  "dayKey 20755 = ''2026-10-29''"
  "dayKey 20754 = ''2026-10-28''"
  "dayKey 20753 = ''2026-10-27''"
  "dayKey 20752 = ''2026-10-26''"
  "dayKey 20751 = ''2026-10-25''"
  "dayKey 20750 = ''2026-10-24''"
  "dayKey 20749 = ''2026-10-23''"
  "dayKey 20748 = ''2026-10-22''"
  "dayKey 20747 = ''2026-10-21''"
  "dayKey 20746 = ''2026-10-20''"
  "dayKey 20745 = ''2026-10-19''"
  "dayKey 20744 = ''2026-10-18''"
  "dayKey 20743 = ''2026-10-17''"
  "dayKey 20742 = ''2026-10-16''"
  "dayKey 20741 = ''2026-10-15''"
  "dayKey 20740 = ''2026-10-14''"
  "dayKey 20739 = ''2026-10-13''"
  "dayKey 20738 = ''2026-10-12''"
  "dayKey 20737 = ''2026-10-11''"
  "dayKey 20736 = ''2026-10-10''"
  "dayKey 20735 = ''2026-10-09''"
  "dayKey 20734 = ''2026-10-08''"
  "dayKey 20733 = ''2026-10-07''"
  "dayKey 20732 = ''2026-10-06''"
  "dayKey 20731 = ''2026-10-05''"
  "dayKey 20697 = ''2026-09-01''"
  "dayKey 20541 = ''2026-03-29''"
  "dayKey 20540 = ''2026-03-28''"
  "dayKey 20539 = ''2026-03-27''"
  "dayKey 20538 = ''2026-03-26''"
  "dayKey 20537 = ''2026-03-25''"
  "dayKey 20536 = ''2026-03-24''"
  "dayKey 20535 = ''2026-03-23''"
  "dayKey 20534 = ''2026-03-22''"
  "dayKey 20533 = ''2026-03-21''"
  "dayKey 20532 = ''2026-03-20''"
  "dayKey 20531 = ''2026-03-19''"
  "dayKey 20530 = ''2026-03-18''"
  "dayKey 20529 = ''2026-03-17''"
  "dayKey 20528 = ''2026-03-16''"
  "dayKey 20527 = ''2026-03-15''"
  "dayKey 20526 = ''2026-03-14''"
  "dayKey 20525 = ''2026-03-13''"
  "dayKey 20524 = ''2026-03-12''"
  "dayKey 20523 = ''2026-03-11''"
  "dayKey 20522 = ''2026-03-10''"
  "dayKey 20521 = ''2026-03-09''"
  "dayKey 20520 = ''2026-03-08''"
  "dayKey 20519 = ''2026-03-07''"
  "dayKey 20518 = ''2026-03-06''"
  "dayKey 20517 = ''2026-03-05''"
  "dayKey 20516 = ''2026-03-04''"
  "dayKey 20515 = ''2026-03-03''"
  "dayKey 20514 = ''2026-03-02''"
  "dayKey 20513 = ''2026-03-01''"
  "dayKey 20512 = ''2026-02-28''"
  "dayKey 20511 = ''2026-02-27''"
  by (simp_all add: dayKey_def civil_def toString_def showNat.simps padStart_def
      digit_char_def cong: let_weak_cong)

text \<open>The months of the 84 days that end on 2026-11-03.\<close>

lemma date_months:
  "monthOfDay 20760 = 10"
  "monthOfDay 20759 = 10"
  "monthOfDay 20758 = 10"
  "monthOfDay 20757 = 9"
  "monthOfDay 20756 = 9"
  "monthOfDay 20755 = 9"
  "monthOfDay 20754 = 9"
  "monthOfDay 20753 = 9"
  "monthOfDay 20752 = 9"
  "monthOfDay 20751 = 9"
  "monthOfDay 20750 = 9"
  "monthOfDay 20749 = 9"
  "monthOfDay 20748 = 9"
  "monthOfDay 20747 = 9"
  "monthOfDay 20746 = 9"
  "monthOfDay 20745 = 9"
  "monthOfDay 20744 = 9"
  "monthOfDay 20743 = 9"
  "monthOfDay 20742 = 9"
  "monthOfDay 20741 = 9"
  "monthOfDay 20740 = 9"
  "monthOfDay 20739 = 9"
  "monthOfDay 20738 = 9"
  "monthOfDay 20737 = 9"
  "monthOfDay 20736 = 9"
  "monthOfDay 20735 = 9"
  "monthOfDay 20734 = 9"
  "monthOfDay 20733 = 9"
  "monthOfDay 20732 = 9"
  "monthOfDay 20731 = 9"
  "monthOfDay 20730 = 9"
  "monthOfDay 20729 = 9"
  "monthOfDay 20728 = 9"
  "monthOfDay 20727 = 9"
  "monthOfDay 20726 = 8"
  "monthOfDay 20725 = 8"
  "monthOfDay 20724 = 8"
  "monthOfDay 20723 = 8"
  "monthOfDay 20722 = 8"
  "monthOfDay 20721 = 8"
  "monthOfDay 20720 = 8"
  "monthOfDay 20719 = 8"
  "monthOfDay 20718 = 8"
  "monthOfDay 20717 = 8"
  "monthOfDay 20716 = 8"
  "monthOfDay 20715 = 8"
  "monthOfDay 20714 = 8"
  "monthOfDay 20713 = 8"
  "monthOfDay 20712 = 8"
  "monthOfDay 20711 = 8"
  "monthOfDay 20710 = 8"
  "monthOfDay 20709 = 8"
  "monthOfDay 20708 = 8"
  "monthOfDay 20707 = 8"
  "monthOfDay 20706 = 8"
  "monthOfDay 20705 = 8"
  "monthOfDay 20704 = 8"
  "monthOfDay 20703 = 8"
  "monthOfDay 20702 = 8"
  "monthOfDay 20701 = 8"
  "monthOfDay 20700 = 8"
  "monthOfDay 20699 = 8"
  "monthOfDay 20698 = 8"
  "monthOfDay 20697 = 8"
  "monthOfDay 20696 = 7"
  "monthOfDay 20695 = 7"
  "monthOfDay 20694 = 7"
  "monthOfDay 20693 = 7"
  "monthOfDay 20692 = 7"
  "monthOfDay 20691 = 7"
  "monthOfDay 20690 = 7"
  "monthOfDay 20689 = 7"
  "monthOfDay 20688 = 7"
  "monthOfDay 20687 = 7"
  "monthOfDay 20686 = 7"
  "monthOfDay 20685 = 7"
  "monthOfDay 20684 = 7"
  "monthOfDay 20683 = 7"
  "monthOfDay 20682 = 7"
  "monthOfDay 20681 = 7"
  "monthOfDay 20680 = 7"
  "monthOfDay 20679 = 7"
  "monthOfDay 20678 = 7"
  "monthOfDay 20677 = 7"
  by (simp_all add: monthOfDay_def civil_def cong: let_weak_cong)

section \<open>Current streak\<close>

lemma streakLoop_takeWhile:
  "i \<le> 365 \<Longrightarrow> streakLoop h today data i streak =
     streak + length (takeWhile (scanned h today data) [i..<365])"
proof (induction h today data i streak rule: streakLoop.induct)
  case (1 h today data i streak)
  show ?case
  proof (cases "i < 365")
    case True
    then have u: "[i..<365] = i # [i + 1..<365]" by (simp add: upt_conv_Cons)
    show ?thesis
    proof (cases "scanned h today data i")
      case p: True
      then have p': "map_of data (getDateKey h (daysAgo h today (int i))) \<noteq> None"
        by (simp add: scanned_def)
      have "streakLoop h today data i streak = streakLoop h today data (i + 1) (streak + 1)"
        using True p' by (subst streakLoop.simps) simp
      also have "\<dots> = streak + 1 + length (takeWhile (scanned h today data) [i + 1..<365])"
        using "1.IH"[OF True p'] True by simp
      finally show ?thesis using p by (simp add: u)
    next
      case p: False
      then have p': "map_of data (getDateKey h (daysAgo h today (int i))) = None"
        by (simp add: scanned_def)
      have "streakLoop h today data i streak = streak"
        using True p' by (subst streakLoop.simps) simp
      then show ?thesis using p by (simp add: u)
    qed
  next
    case False
    with "1.prems" have "i = 365" by simp
    then show ?thesis by (subst streakLoop.simps) simp
  qed
qed

lemma computeCurrentStreak_takeWhile:
  "computeCurrentStreak h today data =
     length (takeWhile (scanned h today data)
        [(if map_of data (getDateKey h today) \<noteq> None then 0 else 1)..<365])"
  using streakLoop_takeWhile[of "if map_of data (getDateKey h today) \<noteq> None then 0 else 1"
      h today data 0]
  by (simp add: computeCurrentStreak_def Let_def)

lemma scanned_regular:
  "regular h today n \<Longrightarrow> i < n \<Longrightarrow> scanned h today data i = present data (localDay h today) i"
  by (simp add: scanned_def present_def key_regular)

text \<open>
  Where the local time of today exists on each of the 365 days that end today, the
  current streak is the streak of the specification: the number of consecutive days in
  the history from the starting day on, below the cap, and 0 exactly when the starting
  day is missing.
\<close>

lemma currentStreak_regular:
  assumes "regular h today 365"
  shows "computeCurrentStreak h today data = streakOfDay (localDay h today) data"
proof -
  let ?d = "localDay h today"
  have s: "(if map_of data (getDateKey h today) \<noteq> None then 0 else 1) = scanStart data ?d"
    by (simp add: scanStart_def present_def getDateKey_dayKey)
  have "takeWhile (scanned h today data) [scanStart data ?d..<365] =
        takeWhile (present data ?d) [scanStart data ?d..<365]"
    by (rule takeWhile_cong) (auto simp: scanned_regular[OF assms])
  then show ?thesis
    unfolding computeCurrentStreak_takeWhile s streakOfDay_def by simp
qed

lemma streakOfDay_0: "streakOfDay dn data = 0 \<longleftrightarrow> \<not> present data dn (scanStart data dn)"
proof -
  have s: "scanStart data dn < 365" by (simp add: scanStart_def)
  then have u: "[scanStart data dn..<365] = scanStart data dn # [scanStart data dn + 1..<365]"
    by (simp add: upt_conv_Cons)
  show ?thesis unfolding streakOfDay_def by (subst u) simp
qed

text \<open>The clock of the examples in America/Nuuk: Sunday 2026-03-29, 23:30 local time.\<close>

lemma nuuk_keys:
  "getDateKey nuukHost 1774830600000 = ''2026-03-29''"
  "getDateKey nuukHost (daysAgo nuukHost 1774830600000 0) = ''2026-03-29''"
  "getDateKey nuukHost (daysAgo nuukHost 1774830600000 1) = ''2026-03-29''"
  "getDateKey nuukHost (daysAgo nuukHost 1774830600000 2) = ''2026-03-27''"
  "getDateKey nuukHost (daysAgo nuukHost 1774830600000 3) = ''2026-03-26''"
  "getDateKey nuukHost (daysAgo nuukHost 1774830600000 4) = ''2026-03-25''"
  "getDateKey nuukHost (daysAgo nuukHost 1774830600000 5) = ''2026-03-24''"
  "getDateKey nuukHost (daysAgo nuukHost 1774830600000 6) = ''2026-03-23''"
  "getDateKey nuukHost (daysAgo nuukHost 1774830600000 7) = ''2026-03-22''"
  "getDateKey nuukHost (daysAgo nuukHost 1774830600000 8) = ''2026-03-21''"
  "getDateKey nuukHost (daysAgo nuukHost 1774830600000 9) = ''2026-03-20''"
  "getDateKey nuukHost (daysAgo nuukHost 1774830600000 10) = ''2026-03-19''"
  "getDateKey nuukHost (daysAgo nuukHost 1774830600000 11) = ''2026-03-18''"
  "getDateKey nuukHost (daysAgo nuukHost 1774830600000 12) = ''2026-03-17''"
  "getDateKey nuukHost (daysAgo nuukHost 1774830600000 13) = ''2026-03-16''"
  "getDateKey nuukHost (daysAgo nuukHost 1774830600000 14) = ''2026-03-15''"
  "getDateKey nuukHost (daysAgo nuukHost 1774830600000 15) = ''2026-03-14''"
  "getDateKey nuukHost (daysAgo nuukHost 1774830600000 16) = ''2026-03-13''"
  "getDateKey nuukHost (daysAgo nuukHost 1774830600000 17) = ''2026-03-12''"
  "getDateKey nuukHost (daysAgo nuukHost 1774830600000 18) = ''2026-03-11''"
  "getDateKey nuukHost (daysAgo nuukHost 1774830600000 19) = ''2026-03-10''"
  "getDateKey nuukHost (daysAgo nuukHost 1774830600000 20) = ''2026-03-09''"
  "getDateKey nuukHost (daysAgo nuukHost 1774830600000 21) = ''2026-03-08''"
  "getDateKey nuukHost (daysAgo nuukHost 1774830600000 22) = ''2026-03-07''"
  "getDateKey nuukHost (daysAgo nuukHost 1774830600000 23) = ''2026-03-06''"
  "getDateKey nuukHost (daysAgo nuukHost 1774830600000 24) = ''2026-03-05''"
  "getDateKey nuukHost (daysAgo nuukHost 1774830600000 25) = ''2026-03-04''"
  "getDateKey nuukHost (daysAgo nuukHost 1774830600000 26) = ''2026-03-03''"
  "getDateKey nuukHost (daysAgo nuukHost 1774830600000 27) = ''2026-03-02''"
  "getDateKey nuukHost (daysAgo nuukHost 1774830600000 28) = ''2026-03-01''"
  "getDateKey nuukHost (daysAgo nuukHost 1774830600000 29) = ''2026-02-28''"
  by (simp_all only: getDateKey_dayKey localDay_daysAgo)
    (simp_all add: localDay_def shown_def LocalTime_def UTC_def nuukHost_def nuukOffset_def
      Day_def msPerDay_def date_keys)

lemma streakOfDay_1:
  "present data dn 0 \<Longrightarrow> \<not> present data dn 1 \<Longrightarrow> streakOfDay dn data = 1"
proof -
  assume a: "present data dn 0" "\<not> present data dn 1"
  have u: "[0..<365] = 0 # 1 # [2..<365]" by (simp add: upt_conv_Cons)
  show ?thesis using a by (simp add: streakOfDay_def scanStart_def u)
qed

text \<open>
  Claim C1, at 23:30 on Sunday 2026-03-29 in America/Nuuk, with records for today and
  for Friday and none for Saturday: the scan of the claim stops at the missing Saturday
  and gives 1; the program reads Sunday's key again at offset 1, because 23:30 is
  skipped on Saturday, counts on through Friday and returns 3.
\<close>

theorem C1_skipped_local_time:
  "localDay nuukHost 1774830600000 = 20541 \<and> dayKey 20541 = ''2026-03-29''
   \<and> dayKey (20541 - 1) = ''2026-03-28''
   \<and> getDateKey nuukHost (daysAgo nuukHost 1774830600000 1) = ''2026-03-29''
   \<and> streakOfDay 20541 [(''2026-03-29'', \<lparr>emoji = [], label = ''Good'', color = [], timestamp = []\<rparr>), (''2026-03-27'', \<lparr>emoji = [], label = ''Good'', color = [], timestamp = []\<rparr>)] = 1
   \<and> computeCurrentStreak nuukHost 1774830600000 [(''2026-03-29'', \<lparr>emoji = [], label = ''Good'', color = [], timestamp = []\<rparr>), (''2026-03-27'', \<lparr>emoji = [], label = ''Good'', color = [], timestamp = []\<rparr>)] = 3"
proof -
  have d: "localDay nuukHost 1774830600000 = 20541"
    by (simp add: localDay_def LocalTime_def nuukHost_def nuukOffset_def Day_def msPerDay_def)
  have s: "streakOfDay 20541 [(''2026-03-29'', \<lparr>emoji = [], label = ''Good'', color = [], timestamp = []\<rparr>), (''2026-03-27'', \<lparr>emoji = [], label = ''Good'', color = [], timestamp = []\<rparr>)] = 1"
    by (rule streakOfDay_1) (simp_all add: present_def date_keys)
  have c: "computeCurrentStreak nuukHost 1774830600000 [(''2026-03-29'', \<lparr>emoji = [], label = ''Good'', color = [], timestamp = []\<rparr>), (''2026-03-27'', \<lparr>emoji = [], label = ''Good'', color = [], timestamp = []\<rparr>)] = 3"
    by (simp add: computeCurrentStreak_def streakLoop.simps nuuk_keys)
  show ?thesis using d s c by (simp add: date_keys nuuk_keys)
qed

section \<open>Best streak\<close>

lemma computeCurrentStreak_empty: "computeCurrentStreak h today [] = 0"
proof -
  have u: "[Suc 0..<365] = Suc 0 # [2..<365]" by (simp add: upt_conv_Cons)
  show ?thesis
    unfolding computeCurrentStreak_takeWhile by (simp add: scanned_def u)
qed

text \<open>The running maximum of the scan over the sorted keys never falls below its start, 1.\<close>

lemma bestLoop_pos: "1 \<le> fst (bestLoop h keys)"
proof -
  have "1 \<le> fst st \<Longrightarrow> 1 \<le> fst (fold (\<lambda>i (best, current).
             if diffDays (parseKey h (keys ! (i - 1))) (parseKey h (keys ! i)) = Some 1
             then (let current' = current + 1
                   in (if current' > best then current' else best, current'))
             else (best, 1)) is st)" for "is" and st :: "nat \<times> nat"
  proof (induction "is" arbitrary: st)
    case Nil
    then show ?case by simp
  next
    case (Cons i "is")
    show ?case
      unfolding fold_simps
      by (rule Cons.IH) (use Cons.prems in \<open>auto simp: Let_def split: prod.splits\<close>)
  qed
  then show ?thesis unfolding bestLoop_def by simp
qed

lemma sorted_keys_Nil: "sort (map fst data) = [] \<longleftrightarrow> data = []"
  by (metis length_sort length_map length_0_conv)

text \<open>
  Claim C3. For every host, history and date, the best streak is at least the current
  streak.
\<close>

theorem C3_best_ge_current:
  "computeCurrentStreak h today data \<le> computeBestStreak h today data"
proof (cases "data = []")
  case True
  then show ?thesis by (simp add: computeBestStreak_def computeCurrentStreak_empty)
next
  case False
  then show ?thesis by (simp add: computeBestStreak_def Let_def sorted_keys_Nil)
qed

text \<open>
  Claim C10. For every history with at least one key the best streak is at least 1,
  whatever its keys are, whatever they convert to and however far in the past they lie,
  so the best streak is 0 exactly for the empty history.
\<close>

theorem C10_best_nonempty:
  "(data \<noteq> [] \<longrightarrow> 1 \<le> computeBestStreak h today data)
   \<and> (computeBestStreak h today data = 0 \<longleftrightarrow> data = [])"
proof -
  have "1 \<le> computeBestStreak h today data" if "data \<noteq> []"
    using that bestLoop_pos[of h "sort (map fst data)"]
    by (simp add: computeBestStreak_def Let_def max_def sorted_keys_Nil)
  moreover have "computeBestStreak h today [] = 0" by (simp add: computeBestStreak_def)
  ultimately show ?thesis by (cases "data = []") auto
qed

text \<open>
  Two recorded days decades apart, seen at noon UTC on 2026-11-03: the best streak is
  at least 1.
\<close>

theorem C10_best_nonempty_witness:
  "[(''1970-01-01'', \<lparr>emoji = [], label = ''Sad'', color = [], timestamp = []\<rparr>),
    (''1999-12-31'', \<lparr>emoji = [], label = ''Good'', color = [], timestamp = []\<rparr>)] \<noteq> []
   \<and> 1 \<le> computeBestStreak utcHost 1793707200000
       [(''1970-01-01'', \<lparr>emoji = [], label = ''Sad'', color = [], timestamp = []\<rparr>),
    (''1999-12-31'', \<lparr>emoji = [], label = ''Good'', color = [], timestamp = []\<rparr>)]"
  using C10_best_nonempty[of "[(''1970-01-01'', \<lparr>emoji = [], label = ''Sad'', color = [], timestamp = []\<rparr>),
    (''1999-12-31'', \<lparr>emoji = [], label = ''Good'', color = [], timestamp = []\<rparr>)]" utcHost 1793707200000]
  by simp

section \<open>Logging a mood for today\<close>

lemma present_update_today:
  "present (AList.update (dayKey dn) e data) dn i = (i = 0 \<or> present data dn i)"
proof (cases "i = 0")
  case True
  then show ?thesis by (simp add: present_def update_conv')
next
  case False
  then have "dayKey (dn - int i) \<noteq> dayKey dn"
    using dayKey_inj[of "dn - int i" dn] by auto
  then show ?thesis using False by (simp add: present_def update_conv')
qed

lemma streakOfDay_after_logging:
  assumes "map_of data (dayKey dn) = None"
  shows "streakOfDay dn (AList.update (dayKey dn) e data) = streakOfDay dn data + 1"
proof -
  let ?d = "AList.update (dayKey dn) e data"
  have p0: "\<not> present data dn 0" using assms by (simp add: present_def)
  have s: "scanStart data dn = 1" "scanStart ?d dn = 0"
    using p0 by (simp_all add: scanStart_def present_update_today)
  have u: "[0..<365] = 0 # [1..<365]" by (simp add: upt_conv_Cons)
  have "takeWhile (present ?d dn) [1..<365] = takeWhile (present data dn) [1..<365]"
    by (rule takeWhile_cong) (auto simp: present_update_today)
  then show ?thesis
    unfolding streakOfDay_def s
    by (subst u) (simp add: present_update_today)
qed

lemma length_update_present:
  "k \<in> fst ` set al \<Longrightarrow> length (AList.update k v al) = length al"
  by (induct al) auto

text \<open>
  Where the local time of today exists on each of the 365 days that end today, logging
  a mood for a day that is not in the history raises the current streak by exactly 1;
  in every zone, logging leaves the records of all other keys as they are, stores the
  new record under today's key, and keeps the keys of a history that holds today.
\<close>

lemma logging_regular:
  "(regular h today 365 \<and> map_of data (getDateKey h today) = None \<longrightarrow>
      computeCurrentStreak h today (handleMoodSelect h today ts m data) =
        computeCurrentStreak h today data + 1)
   \<and> (\<forall>k. k \<noteq> getDateKey h today \<longrightarrow>
         map_of (handleMoodSelect h today ts m data) k = map_of data k)
   \<and> map_of (handleMoodSelect h today ts m data) (getDateKey h today) =
        Some \<lparr>emoji = emoji m, label = label m, color = color m, timestamp = ts\<rparr>
   \<and> (map_of data (getDateKey h today) \<noteq> None \<longrightarrow>
         map fst (handleMoodSelect h today ts m data) = map fst data
         \<and> length (handleMoodSelect h today ts m data) = length data)"
proof -
  have a: "map_of data (getDateKey h today) \<noteq> None \<Longrightarrow> getDateKey h today \<in> fst ` set data"
    by (metis map_of_eq_None_iff)
  have s: "computeCurrentStreak h today
             (AList.update (getDateKey h today)
                \<lparr>emoji = emoji m, label = label m, color = color m, timestamp = ts\<rparr> data) =
           computeCurrentStreak h today data + 1"
    if "regular h today 365" "map_of data (getDateKey h today) = None"
    using that streakOfDay_after_logging[of data "localDay h today"]
    by (simp add: currentStreak_regular getDateKey_dayKey)
  show ?thesis
    unfolding handleMoodSelect_def Let_def
    using s a
    by (simp add: update_conv' update_keys length_update_present)
qed

text \<open>
  Claim C2, at 23:30 on Sunday 2026-03-29 in America/Nuuk, with a record for Friday
  only: the streak is 0 before; after logging for today the claim has 1, Saturday being
  missing; the program reads the new record at offsets 0 and 1, counts on through
  Friday and returns 3. The other key is unchanged.
\<close>

theorem C2_skipped_local_time:
  "map_of [(''2026-03-27'', \<lparr>emoji = [], label = ''Good'', color = [], timestamp = []\<rparr>)] (getDateKey nuukHost 1774830600000) = None
   \<and> computeCurrentStreak nuukHost 1774830600000 [(''2026-03-27'', \<lparr>emoji = [], label = ''Good'', color = [], timestamp = []\<rparr>)] = 0
   \<and> handleMoodSelect nuukHost 1774830600000 ''2026-03-30T00:30:00.000Z'' \<lparr>emoji = [], label = ''Good'', color = ''#86EFAC''\<rparr> [(''2026-03-27'', \<lparr>emoji = [], label = ''Good'', color = [], timestamp = []\<rparr>)] =
       [(''2026-03-27'', \<lparr>emoji = [], label = ''Good'', color = [], timestamp = []\<rparr>),
      (''2026-03-29'', \<lparr>emoji = [], label = ''Good'', color = ''#86EFAC'', timestamp = ''2026-03-30T00:30:00.000Z''\<rparr>)]
   \<and> streakOfDay 20541 [(''2026-03-27'', \<lparr>emoji = [], label = ''Good'', color = [], timestamp = []\<rparr>),
      (''2026-03-29'', \<lparr>emoji = [], label = ''Good'', color = ''#86EFAC'', timestamp = ''2026-03-30T00:30:00.000Z''\<rparr>)] = 1
   \<and> computeCurrentStreak nuukHost 1774830600000
       (handleMoodSelect nuukHost 1774830600000 ''2026-03-30T00:30:00.000Z'' \<lparr>emoji = [], label = ''Good'', color = ''#86EFAC''\<rparr> [(''2026-03-27'', \<lparr>emoji = [], label = ''Good'', color = [], timestamp = []\<rparr>)]) = 3"
proof -
  have n: "map_of [(''2026-03-27'', \<lparr>emoji = [], label = ''Good'', color = [], timestamp = []\<rparr>)] (getDateKey nuukHost 1774830600000) = None"
    by (simp add: nuuk_keys)
  have b: "computeCurrentStreak nuukHost 1774830600000 [(''2026-03-27'', \<lparr>emoji = [], label = ''Good'', color = [], timestamp = []\<rparr>)] = 0"
    by (simp add: computeCurrentStreak_def streakLoop.simps nuuk_keys)
  have l: "handleMoodSelect nuukHost 1774830600000 ''2026-03-30T00:30:00.000Z'' \<lparr>emoji = [], label = ''Good'', color = ''#86EFAC''\<rparr> [(''2026-03-27'', \<lparr>emoji = [], label = ''Good'', color = [], timestamp = []\<rparr>)] =
       [(''2026-03-27'', \<lparr>emoji = [], label = ''Good'', color = [], timestamp = []\<rparr>),
      (''2026-03-29'', \<lparr>emoji = [], label = ''Good'', color = ''#86EFAC'', timestamp = ''2026-03-30T00:30:00.000Z''\<rparr>)]"
    by (simp add: handleMoodSelect_def nuuk_keys)
  have s: "streakOfDay 20541 [(''2026-03-27'', \<lparr>emoji = [], label = ''Good'', color = [], timestamp = []\<rparr>),
      (''2026-03-29'', \<lparr>emoji = [], label = ''Good'', color = ''#86EFAC'', timestamp = ''2026-03-30T00:30:00.000Z''\<rparr>)] = 1"
    by (rule streakOfDay_1) (simp_all add: present_def date_keys)
  have c: "computeCurrentStreak nuukHost 1774830600000
       [(''2026-03-27'', \<lparr>emoji = [], label = ''Good'', color = [], timestamp = []\<rparr>),
      (''2026-03-29'', \<lparr>emoji = [], label = ''Good'', color = ''#86EFAC'', timestamp = ''2026-03-30T00:30:00.000Z''\<rparr>)] = 3"
    by (simp add: computeCurrentStreak_def streakLoop.simps nuuk_keys)
  show ?thesis using n b s c unfolding l by simp
qed

section \<open>Heatmap grid\<close>

lemma gridInv_0: "gridInv h today dow 0 (replicate 7 (replicate 12 None))"
  by (simp add: gridInv_def Let_def)

lemma gridInv_step:
  assumes dow: "0 \<le> dow" "dow \<le> 6" and n: "n < 84" and inv: "gridInv h today dow n G"
  shows "gridInv h today dow (Suc n) (placeCell h today dow n G)"
proof (cases "dow + 77 - int n < 0")
  case True
  have "placeCell h today dow n G = G" using True by (simp add: placeCell_def Let_def)
  moreover have "(0 \<le> dow + 77 - (7 * int c + int r) \<and> dow + 77 - (7 * int c + int r) < int (Suc n))
      = (0 \<le> dow + 77 - (7 * int c + int r) \<and> dow + 77 - (7 * int c + int r) < int n)" for c r
    using True by auto
  ultimately show ?thesis using inv unfolding gridInv_def Let_def by simp
next
  case False
  define pos where "pos = dow + 77 - int n"
  define c0 where "c0 = nat (pos div 7)"
  define r0 where "r0 = nat (pos mod 7)"
  have pos: "0 \<le> pos" "pos \<le> 83" using False dow by (simp_all add: pos_def)
  have c0: "c0 < 12" "int c0 = pos div 7" using pos unfolding c0_def by simp_all
  have r0: "r0 < 7" "int r0 = pos mod 7" using pos unfolding r0_def by simp_all
  have p: "pos = 7 * int c0 + int r0" unfolding c0 r0 by simp
  let ?cell = "\<lparr>dateKey = getDateKey h (daysAgo h today (int n)), col = int c0, row = int r0\<rparr>"
  have cr: "0 \<le> pos div 7" "pos div 7 < 12" "0 \<le> pos mod 7" "pos mod 7 < 7"
    using pos by simp_all
  have pc: "placeCell h today dow n G = G[r0 := (G ! r0)[c0 := Some ?cell]]"
    using pos cr unfolding placeCell_def Let_def pos_def[symmetric]
    by (simp add: c0_def r0_def)
  have len: "length G = 7" "\<And>r. r < 7 \<Longrightarrow> length (G ! r) = 12"
    using inv by (simp_all add: gridInv_def)
  have old: "\<And>r c. r < 7 \<Longrightarrow> c < 12 \<Longrightarrow> G ! r ! c =
           (let i = dow + 77 - (7 * int c + int r)
            in if 0 \<le> i \<and> i < int n
               then Some \<lparr>dateKey = getDateKey h (daysAgo h today i), col = int c, row = int r\<rparr>
               else None)"
    using inv by (simp add: gridInv_def)
  have new: "(G[r0 := (G ! r0)[c0 := Some ?cell]]) ! r ! c =
           (let i = dow + 77 - (7 * int c + int r)
            in if 0 \<le> i \<and> i < int (Suc n)
               then Some \<lparr>dateKey = getDateKey h (daysAgo h today i), col = int c, row = int r\<rparr>
               else None)" if rc: "r < 7" "c < 12" for r c
  proof (cases "r = r0 \<and> c = c0")
    case True
    have "dow + 77 - (7 * int c0 + int r0) = int n" using p by (simp add: pos_def)
    then show ?thesis using True len r0 c0 by (simp add: Let_def)
  next
    case False
    have ne: "dow + 77 - (7 * int c + int r) \<noteq> int n"
    proof
      assume "dow + 77 - (7 * int c + int r) = int n"
      then have e: "7 * int c + int r = 7 * int c0 + int r0" using p by (simp add: pos_def)
      have "int c = int c0" using e rc(1) r0(1) by linarith
      with e False show False by simp
    qed
    have "(G[r0 := (G ! r0)[c0 := Some ?cell]]) ! r ! c = G ! r ! c"
      using False len r0 c0 rc by (cases "r = r0") (simp_all)
    then show ?thesis using ne old[OF rc] by (auto simp: Let_def)
  qed
  show ?thesis
    unfolding gridInv_def pc
  proof (intro conjI allI impI)
    show "length (G[r0 := (G ! r0)[c0 := Some ?cell]]) = 7" using len by simp
  next
    fix r :: nat assume "r < 7"
    then show "length (G[r0 := (G ! r0)[c0 := Some ?cell]] ! r) = 12"
      using len by (cases "r = r0") simp_all
  next
    fix r c :: nat assume "r < 7" "c < 12"
    then show "G[r0 := (G ! r0)[c0 := Some ?cell]] ! r ! c =
           (let i = dow + 77 - (7 * int c + int r)
            in if 0 \<le> i \<and> i < int (Suc n)
               then Some \<lparr>dateKey = getDateKey h (daysAgo h today i), col = int c, row = int r\<rparr>
               else None)" by (rule new)
  qed
qed

lemma gridInv_fold:
  assumes dow: "0 \<le> dow" "dow \<le> 6"
  shows "n \<le> 84 \<Longrightarrow> gridInv h today dow n (fold (placeCell h today dow) [0..<n] (replicate 7 (replicate 12 None)))"
proof (induction n)
  case 0
  show ?case by (simp add: gridInv_0)
next
  case (Suc n)
  then show ?case using gridInv_step[OF dow, of n h today] by simp
qed

lemma buildHeatmapCells_inv: "gridInv h today (getDay h today) 84 (buildHeatmapCells h today)"
  using gridInv_fold[of "getDay h today" 84 h today] getDay_range[of h today]
  by (simp add: buildHeatmapCells_def Let_def DAYS_IN_HEATMAP_def)

lemma grid_cell:
  assumes "r < 7" "c < 12"
  shows "buildHeatmapCells h today ! r ! c =
           (let i = getDay h today + 77 - (7 * int c + int r)
            in if 0 \<le> i \<and> i < 84
               then Some \<lparr>dateKey = getDateKey h (daysAgo h today i), col = int c, row = int r\<rparr>
               else None)"
  using buildHeatmapCells_inv[of h today] assms by (simp add: gridInv_def)

text \<open>
  In every zone, each offset \<open>i\<close> below 84 with \<open>pos = todayDow + 77 - i\<close> not negative
  is placed in row \<open>pos mod 7\<close> and column \<open>pos div 7\<close>, which lie in the grid, on a cell
  that was empty until then, with the key that the program computes for the offset;
  distinct offsets have distinct positions; the grid keeps its seven rows of twelve
  cells and every cell in it records its own row and column; and the date of offset 0
  is in column 11 in the row of today's day of the week.
\<close>

lemma heatmap_cells:
  "(\<forall>i<84. 0 \<le> getDay h today + 77 - int i \<longrightarrow>
      (let pos = getDay h today + 77 - int i
       in 0 \<le> pos div 7 \<and> pos div 7 < 12 \<and> 0 \<le> pos mod 7 \<and> pos mod 7 < 7 \<and>
          fold (placeCell h today (getDay h today)) [0..<i] (replicate 7 (replicate 12 None))
            ! nat (pos mod 7) ! nat (pos div 7) = None \<and>
          buildHeatmapCells h today ! nat (pos mod 7) ! nat (pos div 7) =
            Some \<lparr>dateKey = getDateKey h (daysAgo h today (int i)),
                  col = pos div 7, row = pos mod 7\<rparr>))
   \<and> (\<forall>i<84. \<forall>j<84. i \<noteq> j \<longrightarrow>
         (let p = getDay h today + 77 - int i; q = getDay h today + 77 - int j
          in (p mod 7, p div 7) \<noteq> (q mod 7, q div 7)))
   \<and> length (buildHeatmapCells h today) = 7
   \<and> (\<forall>r<7. length (buildHeatmapCells h today ! r) = 12)
   \<and> (\<forall>r<7. \<forall>c<12. \<forall>cell. buildHeatmapCells h today ! r ! c = Some cell \<longrightarrow>
         col cell = int c \<and> row cell = int r)
   \<and> buildHeatmapCells h today ! nat (getDay h today) ! 11 =
         Some \<lparr>dateKey = getDateKey h (daysAgo h today 0), col = 11, row = getDay h today\<rparr>"
proof -
  have dow: "0 \<le> getDay h today" "getDay h today \<le> 6"
    using getDay_range[of h today] by simp_all
  have inv: "gridInv h today (getDay h today) 84 (buildHeatmapCells h today)"
    by (rule buildHeatmapCells_inv)
  have A: "0 \<le> pos div 7 \<and> pos div 7 < 12 \<and> 0 \<le> pos mod 7 \<and> pos mod 7 < 7 \<and>
          fold (placeCell h today (getDay h today)) [0..<i] (replicate 7 (replicate 12 None))
            ! nat (pos mod 7) ! nat (pos div 7) = None \<and>
          buildHeatmapCells h today ! nat (pos mod 7) ! nat (pos div 7) =
            Some \<lparr>dateKey = getDateKey h (daysAgo h today (int i)),
                  col = pos div 7, row = pos mod 7\<rparr>"
    if i: "i < 84" and p0: "0 \<le> pos" and pd: "pos = getDay h today + 77 - int i" for i pos
  proof -
    have p83: "pos \<le> 83" using dow pd by simp
    have cr: "0 \<le> pos div 7" "pos div 7 < 12" "0 \<le> pos mod 7" "pos mod 7 < 7"
      using p0 p83 by simp_all
    have rn: "nat (pos mod 7) < 7" "nat (pos div 7) < 12" using cr by simp_all
    have e: "getDay h today + 77 - (7 * int (nat (pos div 7)) + int (nat (pos mod 7))) = int i"
      using cr pd by simp
    have g: "gridInv h today (getDay h today) i
        (fold (placeCell h today (getDay h today)) [0..<i] (replicate 7 (replicate 12 None)))"
      using gridInv_fold[OF dow, of i h today] i by simp
    have "fold (placeCell h today (getDay h today)) [0..<i] (replicate 7 (replicate 12 None))
            ! nat (pos mod 7) ! nat (pos div 7) = None"
      using g rn e unfolding gridInv_def Let_def by simp
    moreover have "buildHeatmapCells h today ! nat (pos mod 7) ! nat (pos div 7) =
            Some \<lparr>dateKey = getDateKey h (daysAgo h today (int i)),
                  col = pos div 7, row = pos mod 7\<rparr>"
      using grid_cell[OF rn, of h today] e i cr by (simp add: Let_def)
    ultimately show ?thesis using cr by simp
  qed
  have B: "(p mod 7, p div 7) \<noteq> (q mod 7, q div 7)" if "p \<noteq> q" for p q :: int
    using that by (metis Pair_inject mult_div_mod_eq)
  have C: "col cell = int c \<and> row cell = int r"
    if "r < 7" "c < 12" "buildHeatmapCells h today ! r ! c = Some cell" for r c cell
    using that grid_cell[of r c h today] by (auto simp: Let_def split: if_splits)
  have D: "buildHeatmapCells h today ! nat (getDay h today) ! 11 =
         Some \<lparr>dateKey = getDateKey h (daysAgo h today 0), col = 11, row = getDay h today\<rparr>"
    using grid_cell[of "nat (getDay h today)" 11 h today] dow by (simp add: Let_def)
  show ?thesis
    using A B C D inv by (auto simp: Let_def gridInv_def)
qed

text \<open>
  Where the local time of today exists on each of the 84 days that end today, the grid
  is the grid of the specification: every cell carries the key of its own day.
\<close>

lemma heatmap_regular:
  assumes "regular h today 84"
  shows "buildHeatmapCells h today = gridOfDay (localDay h today)"
proof (rule nth_equalityI)
  have inv: "gridInv h today (getDay h today) 84 (buildHeatmapCells h today)"
    by (rule buildHeatmapCells_inv)
  show l: "length (buildHeatmapCells h today) = length (gridOfDay (localDay h today))"
    using inv by (simp add: gridInv_def gridOfDay_def)
  fix r assume "r < length (buildHeatmapCells h today)"
  then have r: "r < 7" using inv by (simp add: gridInv_def)
  show "buildHeatmapCells h today ! r = gridOfDay (localDay h today) ! r"
  proof (rule nth_equalityI)
    show "length (buildHeatmapCells h today ! r) = length (gridOfDay (localDay h today) ! r)"
      using inv r by (simp add: gridInv_def gridOfDay_def)
    fix c assume "c < length (buildHeatmapCells h today ! r)"
    then have c: "c < 12" using inv r by (simp add: gridInv_def)
    have k: "getDateKey h (daysAgo h today i) = dayKey (localDay h today - i)"
      if "0 \<le> i" "i < 84" for i
      using key_regular[OF assms, of "nat i"] that by simp
    show "buildHeatmapCells h today ! r ! c = gridOfDay (localDay h today) ! r ! c"
      using r c k by (simp add: grid_cell gridOfDay_def getDay_weekDay Let_def)
  qed
qed

text \<open>
  Claim C7, at 23:30 on Sunday 2026-03-29 in America/Nuuk: the cell of offset 1, in row
  6 of column 10, is the cell of Saturday 2026-03-28, and the program gives it the key
  of Sunday 2026-03-29, which the cell of today in row 0 of column 11 has too.
\<close>

theorem C7_skipped_local_time:
  "getDay nuukHost 1774830600000 = 0
   \<and> gridOfDay 20541 ! 6 ! 10 = Some \<lparr>dateKey = ''2026-03-28'', col = 10, row = 6\<rparr>
   \<and> buildHeatmapCells nuukHost 1774830600000 ! 6 ! 10 =
       Some \<lparr>dateKey = ''2026-03-29'', col = 10, row = 6\<rparr>
   \<and> buildHeatmapCells nuukHost 1774830600000 ! 0 ! 11 =
       Some \<lparr>dateKey = ''2026-03-29'', col = 11, row = 0\<rparr>"
proof -
  have d: "getDay nuukHost 1774830600000 = 0"
    by (simp add: getDay_def LocalTime_def nuukHost_def nuukOffset_def Day_def msPerDay_def)
  have g: "gridOfDay 20541 ! 6 ! 10 = Some \<lparr>dateKey = ''2026-03-28'', col = 10, row = 6\<rparr>"
    by (simp add: gridOfDay_def weekDay_def date_keys)
  have a: "buildHeatmapCells nuukHost 1774830600000 ! 6 ! 10 =
       Some \<lparr>dateKey = ''2026-03-29'', col = 10, row = 6\<rparr>"
    using grid_cell[of 6 10 nuukHost 1774830600000] by (simp add: d nuuk_keys)
  have b: "buildHeatmapCells nuukHost 1774830600000 ! 0 ! 11 =
       Some \<lparr>dateKey = ''2026-03-29'', col = 11, row = 0\<rparr>"
    using grid_cell[of 0 11 nuukHost 1774830600000] by (simp add: d nuuk_keys)
  show ?thesis using d g a b by simp
qed

section \<open>Thirty-day frequency\<close>

lemma countOf_fold:
  "countOf (fold (\<lambda>i counts.
             case map_of data (getDateKey h (daysAgo h today (int i))) of
               None \<Rightarrow> counts
             | Some entry \<Rightarrow> counts(label entry \<mapsto> countOf counts (label entry) + 1))
          is counts) l =
   countOf counts l +
   length (filter (\<lambda>i. map_option label (map_of data (getDateKey h (daysAgo h today (int i)))) =
                        Some l) is)"
proof (induction "is" arbitrary: counts)
  case Nil
  show ?case by simp
next
  case (Cons i "is")
  show ?case
    unfolding fold_simps Cons.IH
    by (cases "map_of data (getDateKey h (daysAgo h today (int i)))")
      (auto simp: countOf_def)
qed

lemma countOf_tally30:
  "countOf (tally30 h today data) l =
   length (filter (\<lambda>i. map_option label (map_of data (getDateKey h (daysAgo h today (int i)))) =
                        Some l) [0..<30])"
  unfolding tally30_def countOf_fold by (simp add: countOf_def)

text \<open>
  Where the local time of today exists on each of the 30 days that end today, the
  tally of a label is its number of occurrences on those days, and the frequency list
  is the list of the specification.
\<close>

lemma tally30_regular:
  assumes "regular h today 30"
  shows "countOf (tally30 h today data) l = occurrences (localDay h today) data l"
proof -
  have "filter (\<lambda>i. map_option label (map_of data (getDateKey h (daysAgo h today (int i)))) =
                        Some l) [0..<30] =
        filter (\<lambda>i. map_option label (map_of data (dayKey (localDay h today - int i))) = Some l)
               [0..<30]"
    by (rule filter_cong) (auto simp: key_regular[OF assms])
  then show ?thesis by (simp add: countOf_tally30 occurrences_def)
qed

lemma frequency_regular:
  assumes "regular h today 30"
  shows "getFrequencyIn30Days h today data = frequencyOfDay (localDay h today) data"
  unfolding getFrequencyIn30Days_def frequencyOfDay_def occurring_def Let_def
    tally30_regular[OF assms]
  by (simp add: filter_map comp_def)

text \<open>
  The frequency list of the specification holds exactly the catalog entries whose label
  occurs on at least one of the 30 days, each with its number of occurrences, which is
  positive; the counts descend along the list; and the entries of equal count stand in
  catalog order.
\<close>

lemma frequencyOfDay_properties:
  "mood ` set (frequencyOfDay dn data) = {m \<in> set MOODS. occurrences dn data (label m) > 0}
   \<and> (\<forall>e \<in> set (frequencyOfDay dn data).
         count e = occurrences dn data (label (mood e)) \<and> count e > 0)
   \<and> sorted_wrt (\<lambda>a b. count a \<ge> count b) (frequencyOfDay dn data)
   \<and> (\<forall>k. filter (\<lambda>e. count e = k) (frequencyOfDay dn data) =
            filter (\<lambda>e. count e = k) (occurring dn data))
   \<and> length (frequencyOfDay dn data) =
       length (filter (\<lambda>m. occurrences dn data (label m) > 0) MOODS)"
proof -
  let ?f = "\<lambda>m::FreqItem. - int (count m)"
  let ?r = "frequencyOfDay dn data"
  have r: "?r = sort_key ?f (occurring dn data)" by (rule frequencyOfDay_def)
  have s: "set ?r = set (occurring dn data)" unfolding r by simp
  have 1: "mood ` set ?r = {m \<in> set MOODS. occurrences dn data (label m) > 0}"
    unfolding s occurring_def by (auto simp: image_iff)
  have 2: "\<forall>e \<in> set ?r. count e = occurrences dn data (label (mood e)) \<and> count e > 0"
    unfolding s occurring_def by auto
  have "sorted (map ?f ?r)" unfolding r by (rule sorted_sort_key)
  then have 3: "sorted_wrt (\<lambda>a b. count a \<ge> count b) ?r"
    by (simp add: sorted_map)
  have 4: "filter (\<lambda>e. count e = k) ?r = filter (\<lambda>e. count e = k) (occurring dn data)" for k
  proof -
    have "(\<lambda>e::FreqItem. count e = k) = (\<lambda>e. ?f e = - int k)" by auto
    then show ?thesis unfolding r by (simp only: sort_key_stable)
  qed
  have 5: "length ?r = length (filter (\<lambda>m. occurrences dn data (label m) > 0) MOODS)"
    unfolding r by (simp add: occurring_def)
  show ?thesis using 1 2 3 4 5 by blast
qed

lemmas frequency_eval = frequencyOfDay_def occurring_def occurrences_def date_keys upt_conv_Cons
  MOODS_def

text \<open>
  Claim C6, at 23:30 on Sunday 2026-03-29 in America/Nuuk, with "Sad" recorded today and
  "Good" on Saturday: each label occurs once in the 30 days, and the list of the claim
  is "Good" 1, "Sad" 1; the program reads today's record at offsets 0 and 1 and never
  Saturday's, and returns "Sad" 2 alone.
\<close>

theorem C6_skipped_local_time:
  "occurrences 20541 [(''2026-03-29'', \<lparr>emoji = [], label = ''Sad'', color = [], timestamp = []\<rparr>), (''2026-03-28'', \<lparr>emoji = [], label = ''Good'', color = [], timestamp = []\<rparr>)] ''Sad'' = 1
   \<and> occurrences 20541 [(''2026-03-29'', \<lparr>emoji = [], label = ''Sad'', color = [], timestamp = []\<rparr>), (''2026-03-28'', \<lparr>emoji = [], label = ''Good'', color = [], timestamp = []\<rparr>)] ''Good'' = 1
   \<and> frequencyOfDay 20541 [(''2026-03-29'', \<lparr>emoji = [], label = ''Sad'', color = [], timestamp = []\<rparr>), (''2026-03-28'', \<lparr>emoji = [], label = ''Good'', color = [], timestamp = []\<rparr>)] =
       [\<lparr>mood = MOODS ! 1, count = 1\<rparr>, \<lparr>mood = MOODS ! 4, count = 1\<rparr>]
   \<and> getFrequencyIn30Days nuukHost 1774830600000 [(''2026-03-29'', \<lparr>emoji = [], label = ''Sad'', color = [], timestamp = []\<rparr>), (''2026-03-28'', \<lparr>emoji = [], label = ''Good'', color = [], timestamp = []\<rparr>)] =
       [\<lparr>mood = MOODS ! 4, count = 2\<rparr>]"
proof -
  have a: "occurrences 20541 [(''2026-03-29'', \<lparr>emoji = [], label = ''Sad'', color = [], timestamp = []\<rparr>), (''2026-03-28'', \<lparr>emoji = [], label = ''Good'', color = [], timestamp = []\<rparr>)] ''Sad'' = 1"
    by (simp add: occurrences_def date_keys upt_conv_Cons)
  have b: "occurrences 20541 [(''2026-03-29'', \<lparr>emoji = [], label = ''Sad'', color = [], timestamp = []\<rparr>), (''2026-03-28'', \<lparr>emoji = [], label = ''Good'', color = [], timestamp = []\<rparr>)] ''Good'' = 1"
    by (simp add: occurrences_def date_keys upt_conv_Cons)
  have f: "frequencyOfDay 20541 [(''2026-03-29'', \<lparr>emoji = [], label = ''Sad'', color = [], timestamp = []\<rparr>), (''2026-03-28'', \<lparr>emoji = [], label = ''Good'', color = [], timestamp = []\<rparr>)] =
       [\<lparr>mood = MOODS ! 1, count = 1\<rparr>, \<lparr>mood = MOODS ! 4, count = 1\<rparr>]"
    by (simp add: frequency_eval)
  have g: "getFrequencyIn30Days nuukHost 1774830600000 [(''2026-03-29'', \<lparr>emoji = [], label = ''Sad'', color = [], timestamp = []\<rparr>), (''2026-03-28'', \<lparr>emoji = [], label = ''Good'', color = [], timestamp = []\<rparr>)] =
       [\<lparr>mood = MOODS ! 4, count = 2\<rparr>]"
    by (simp add: getFrequencyIn30Days_def tally30_def nuuk_keys upt_conv_Cons countOf_def
        MOODS_def)
  show ?thesis using a b f g by blast
qed

section \<open>Bar widths\<close>

lemma fold_max_count:
  "fold (\<lambda>m mx. max mx (count m)) (xs :: FreqItem list) a = Max (insert a (count ` set xs))"
proof (induction xs arbitrary: a)
  case Nil
  show ?case by simp
next
  case (Cons x xs)
  have f: "finite (count ` set xs)" by simp
  have "Max (insert (max a (count x)) (count ` set xs)) =
        Max (insert a (insert (count x) (count ` set xs)))"
  proof (cases "count ` set xs = {}")
    case True
    then show ?thesis by simp
  next
    case False
    then show ?thesis using f by (simp add: max.assoc)
  qed
  then show ?case by (simp add: Cons.IH)
qed

lemmas fl_eval = fl_def log2floor_def pow2_def roundTiesToEven_def compute_floorlog

lemma barWidth_10_10: "barWidth 10 10 = 100"
  by (simp add: barWidth_def fl_eval cong: let_weak_cong)

lemma barWidth_3_10: "barWidth 3 10 = 30"
  by (simp add: barWidth_def fl_eval cong: let_weak_cong)

text \<open>
  Claim C8. For a frequency list that is not empty, \<open>maxFreq\<close> is the largest count in
  it, and at least 1, and the width of each bar is \<open>max(count / maxFreq * 100, 10)\<close> in
  the arithmetic of binary64 numbers; the counts 10 and 3 give exactly 100 and 30.
\<close>

theorem C8_bar_widths:
  "(freq \<noteq> [] \<longrightarrow>
      maxFreq freq = Max (insert 1 (count ` set freq)) \<and>
      barWidths freq =
        map (\<lambda>e. max (fl (fl (real (count e) / real (Max (insert 1 (count ` set freq)))) * 100)) 10)
            freq)
   \<and> barWidths [\<lparr>mood = x, count = 10\<rparr>, \<lparr>mood = y, count = 3\<rparr>] = [100, 30]"
proof -
  have m: "maxFreq freq = Max (insert 1 (count ` set freq))"
    unfolding maxFreq_def by (rule fold_max_count)
  have w: "barWidths freq =
        map (\<lambda>e. max (fl (fl (real (count e) / real (Max (insert 1 (count ` set freq)))) * 100)) 10)
            freq"
    unfolding barWidths_def barWidth_def m ..
  have "maxFreq [\<lparr>mood = x, count = 10\<rparr>, \<lparr>mood = y, count = 3\<rparr>] = 10"
    by (simp add: maxFreq_def)
  then have e: "barWidths [\<lparr>mood = x, count = 10\<rparr>, \<lparr>mood = y, count = 3\<rparr>] = [100, 30]"
    by (simp add: barWidths_def barWidth_10_10 barWidth_3_10)
  show ?thesis using m w e by blast
qed

text \<open>
  The history of the end-to-end test, seen at noon UTC on 2026-11-03: "Neutral" on the ten
  days before today and "Joyful" on the three days before those.
\<close>

theorem C8_bar_widths_witness:
  "getFrequencyIn30Days utcHost 1793707200000
     [(''2026-11-02'', \<lparr>emoji = [], label = ''Neutral'', color = [], timestamp = []\<rparr>),
      (''2026-11-01'', \<lparr>emoji = [], label = ''Neutral'', color = [], timestamp = []\<rparr>),
      (''2026-10-31'', \<lparr>emoji = [], label = ''Neutral'', color = [], timestamp = []\<rparr>),
      (''2026-10-30'', \<lparr>emoji = [], label = ''Neutral'', color = [], timestamp = []\<rparr>),
      (''2026-10-29'', \<lparr>emoji = [], label = ''Neutral'', color = [], timestamp = []\<rparr>),
      (''2026-10-28'', \<lparr>emoji = [], label = ''Neutral'', color = [], timestamp = []\<rparr>),
      (''2026-10-27'', \<lparr>emoji = [], label = ''Neutral'', color = [], timestamp = []\<rparr>),
      (''2026-10-26'', \<lparr>emoji = [], label = ''Neutral'', color = [], timestamp = []\<rparr>),
      (''2026-10-25'', \<lparr>emoji = [], label = ''Neutral'', color = [], timestamp = []\<rparr>),
      (''2026-10-24'', \<lparr>emoji = [], label = ''Neutral'', color = [], timestamp = []\<rparr>),
      (''2026-10-23'', \<lparr>emoji = [], label = ''Joyful'', color = [], timestamp = []\<rparr>),
      (''2026-10-22'', \<lparr>emoji = [], label = ''Joyful'', color = [], timestamp = []\<rparr>),
      (''2026-10-21'', \<lparr>emoji = [], label = ''Joyful'', color = [], timestamp = []\<rparr>)] =
     [\<lparr>mood = MOODS ! 2, count = 10\<rparr>, \<lparr>mood = MOODS ! 0, count = 3\<rparr>]
   \<and> [\<lparr>mood = MOODS ! 2, count = 10\<rparr>, \<lparr>mood = MOODS ! 0, count = 3\<rparr>] \<noteq> []
   \<and> maxFreq [\<lparr>mood = MOODS ! 2, count = 10\<rparr>, \<lparr>mood = MOODS ! 0, count = 3\<rparr>] = 10
   \<and> barWidths [\<lparr>mood = MOODS ! 2, count = 10\<rparr>, \<lparr>mood = MOODS ! 0, count = 3\<rparr>] = [100, 30]"
proof -
  have r: "getFrequencyIn30Days utcHost 1793707200000
     [(''2026-11-02'', \<lparr>emoji = [], label = ''Neutral'', color = [], timestamp = []\<rparr>),
      (''2026-11-01'', \<lparr>emoji = [], label = ''Neutral'', color = [], timestamp = []\<rparr>),
      (''2026-10-31'', \<lparr>emoji = [], label = ''Neutral'', color = [], timestamp = []\<rparr>),
      (''2026-10-30'', \<lparr>emoji = [], label = ''Neutral'', color = [], timestamp = []\<rparr>),
      (''2026-10-29'', \<lparr>emoji = [], label = ''Neutral'', color = [], timestamp = []\<rparr>),
      (''2026-10-28'', \<lparr>emoji = [], label = ''Neutral'', color = [], timestamp = []\<rparr>),
      (''2026-10-27'', \<lparr>emoji = [], label = ''Neutral'', color = [], timestamp = []\<rparr>),
      (''2026-10-26'', \<lparr>emoji = [], label = ''Neutral'', color = [], timestamp = []\<rparr>),
      (''2026-10-25'', \<lparr>emoji = [], label = ''Neutral'', color = [], timestamp = []\<rparr>),
      (''2026-10-24'', \<lparr>emoji = [], label = ''Neutral'', color = [], timestamp = []\<rparr>),
      (''2026-10-23'', \<lparr>emoji = [], label = ''Joyful'', color = [], timestamp = []\<rparr>),
      (''2026-10-22'', \<lparr>emoji = [], label = ''Joyful'', color = [], timestamp = []\<rparr>),
      (''2026-10-21'', \<lparr>emoji = [], label = ''Joyful'', color = [], timestamp = []\<rparr>)] =
     [\<lparr>mood = MOODS ! 2, count = 10\<rparr>, \<lparr>mood = MOODS ! 0, count = 3\<rparr>]"
    by (simp add: frequency_regular regular_utcHost localDay_utcHost frequency_eval)
  note t = C8_bar_widths[of "[\<lparr>mood = MOODS ! 2, count = 10\<rparr>, \<lparr>mood = MOODS ! 0, count = 3\<rparr>]" "MOODS ! 2" "MOODS ! 0"]
  have ne: "[\<lparr>mood = MOODS ! 2, count = 10\<rparr>, \<lparr>mood = MOODS ! 0, count = 3\<rparr>] \<noteq> []" by simp
  have a: "maxFreq [\<lparr>mood = MOODS ! 2, count = 10\<rparr>, \<lparr>mood = MOODS ! 0, count = 3\<rparr>] = Max (insert 1 (count ` set [\<lparr>mood = MOODS ! 2, count = 10\<rparr>, \<lparr>mood = MOODS ! 0, count = 3\<rparr>]))"
    using t ne by blast
  have b: "Max (insert 1 (count ` set [\<lparr>mood = MOODS ! 2, count = 10\<rparr>, \<lparr>mood = MOODS ! 0, count = 3\<rparr>])) = 10" by simp
  have c: "barWidths [\<lparr>mood = MOODS ! 2, count = 10\<rparr>, \<lparr>mood = MOODS ! 0, count = 3\<rparr>] = [100, 30]"
    using t by blast
  show ?thesis
  proof (intro conjI)
    show "maxFreq [\<lparr>mood = MOODS ! 2, count = 10\<rparr>, \<lparr>mood = MOODS ! 0, count = 3\<rparr>] = 10" unfolding a by (rule b)
  qed (rule r ne c)+
qed

section \<open>Month labels\<close>

lemma firstRow_0:
  assumes "0 \<le> dow" "dow \<le> 6" "c < 12"
  shows "firstRow dow c = Some 0"
proof -
  have u: "[0..<7] = 0 # [1..<7]" by (simp add: upt_conv_Cons)
  show ?thesis
    unfolding firstRow_def u using assms by (simp add: agoOf_def DAYS_IN_HEATMAP_def)
qed

lemma getMonth_range: "0 \<le> getMonth h t \<and> getMonth h t \<le> 11"
  using civil_ranges[of "Day (LocalTime h t)"] by (simp add: getMonth_def)

lemma labelStep_eq:
  assumes "c < 12"
  shows "labelStep h today (getDay h today) c st =
     (if columnMonth h today c \<noteq> snd st
      then (fst st @ [(monthShort (columnMonth h today c), int c)], columnMonth h today c)
      else st)"
  using firstRow_0[of "getDay h today" c] getDay_range[of h today] assms
  by (simp add: labelStep_def columnMonth_def Let_def)

lemma labels_fold:
  "n \<le> 12 \<Longrightarrow>
   fold (labelStep h today (getDay h today)) [0..<n] ([], - 1) =
     (map (\<lambda>c. (monthShort (columnMonth h today c), int c)) (filter (emits h today) [0..<n]),
      if n = 0 then - 1 else columnMonth h today (n - 1))"
proof (induction n)
  case 0
  show ?case by simp
next
  case (Suc n)
  have m: "columnMonth h today n \<noteq> - 1"
    using getMonth_range[of h "daysAgo h today (agoOf (getDay h today) n 0)"]
    by (simp add: columnMonth_def)
  from Suc have n: "n < 12" "n \<le> 12" by simp_all
  show ?case
    using m n by (cases "n = 0") (simp_all add: Suc.IH[OF n(2)] labelStep_eq emits_def)
qed

lemma getMonthLabels_emits:
  "getMonthLabels h today =
     map (\<lambda>c. (monthShort (columnMonth h today c), int c)) (filter (emits h today) [0..<12])"
  using labels_fold[of 12 h today] by (simp add: getMonthLabels_def)

text \<open>
  Where the local time of today exists on each of the 84 days that end today, the month
  that the program computes for a column is the calendar month of the column's Sunday,
  and the labels are those of the calendar.
\<close>

lemma columnMonth_regular:
  assumes "regular h today 84" "c < 12"
  shows "columnMonth h today c = sundayMonth (localDay h today) c"
proof -
  let ?i = "agoOf (getDay h today) c 0"
  have r: "0 \<le> ?i \<and> ?i < 84"
    using getDay_range[of h today] assms(2) by (simp add: agoOf_def)
  from r have i1: "?i = int (nat ?i)" by simp
  from r have i2: "nat ?i < 84" by linarith
  have "getMonth h (daysAgo h today (int (nat ?i))) = monthOfDay (localDay h today - int (nat ?i))"
    by (rule month_regular[OF assms(1) i2])
  then have "getMonth h (daysAgo h today ?i) = monthOfDay (localDay h today - ?i)"
    using r by simp
  then show ?thesis
    by (simp add: columnMonth_def sundayMonth_def getDay_weekDay)
qed

lemma labels_regular:
  assumes "regular h today 84"
  shows "getMonthLabels h today = labelsOfDay (localDay h today)"
proof -
  let ?dn = "localDay h today"
  have f: "filter (emits h today) [0..<12] =
           filter (\<lambda>c. c = 0 \<or> sundayMonth ?dn c \<noteq> sundayMonth ?dn (c - 1)) [0..<12]"
    by (rule filter_cong) (auto simp: emits_def columnMonth_regular[OF assms])
  have m: "map (\<lambda>c. (monthShort (columnMonth h today c), int c)) xs =
           map (\<lambda>c. (monthShort (sundayMonth ?dn c), int c)) xs"
    if "set xs \<subseteq> {0..<12}" for xs
    using that by (intro map_cong) (auto simp: columnMonth_regular[OF assms])
  show ?thesis
    unfolding getMonthLabels_emits labelsOfDay_def f
    by (rule m) auto
qed

text \<open>
  Claim C9, amended. For every instant, the first row of each column inside the window
  is row 0, and the labels are, for the columns from left to right, the short name of
  the column's month with the column, for column 0 and for every column whose month
  differs from the month of the column before it, which is the month of the last label
  emitted. The month of a column is the month of the date that the program computes for
  the column's row 0; where the local time of today exists on each of the 84 days, it is
  the calendar month of the column's Sunday. A label thus stands at the first column
  that begins in its month.
\<close>

theorem C9_month_labels:
  "getMonthLabels h today =
     map (\<lambda>c. (monthShort (columnMonth h today c), int c))
         (filter (\<lambda>c. c = 0 \<or> columnMonth h today c \<noteq> columnMonth h today (c - 1)) [0..<12])
   \<and> (\<forall>c<12. firstRow (getDay h today) c = Some 0)
   \<and> (regular h today 84 \<longrightarrow>
        (\<forall>c<12. columnMonth h today c = sundayMonth (localDay h today) c))"
proof -
  have "emits h today =
        (\<lambda>c. c = 0 \<or> columnMonth h today c \<noteq> columnMonth h today (c - 1))"
    by (auto simp: emits_def)
  then show ?thesis
    using getMonthLabels_emits[of h today] firstRow_0[of "getDay h today"]
      getDay_range[of h today] columnMonth_regular[of h today]
    by simp
qed

lemmas labels_eval = labelsOfDay_def sundayMonth_def agoOf_def weekDay_def date_months
  monthShort_def upt_conv_Cons

text \<open>
  At noon UTC on Tuesday 2026-11-03 the labels are Aug, Sep, Oct and Nov, and column 3
  has row 0 first and the month of Sunday 2026-09-06.
\<close>

theorem C9_month_labels_witness:
  "(3::nat) < 12 \<and> firstRow (getDay utcHost 1793707200000) 3 = Some 0
   \<and> regular utcHost 1793707200000 84
   \<and> columnMonth utcHost 1793707200000 3 = sundayMonth 20760 3
   \<and> sundayMonth 20760 3 = 8
   \<and> getMonthLabels utcHost 1793707200000 =
       [(''Aug'', 0), (''Sep'', 3), (''Oct'', 7), (''Nov'', 11)]"
proof -
  have l: "getMonthLabels utcHost 1793707200000 =
       [(''Aug'', 0), (''Sep'', 3), (''Oct'', 7), (''Nov'', 11)]"
    by (simp add: labels_regular regular_utcHost localDay_utcHost labels_eval)
  have d: "localDay utcHost 1793707200000 = 20760" by (simp add: localDay_utcHost)
  have s: "sundayMonth 20760 3 = 8"
    by (simp add: sundayMonth_def agoOf_def weekDay_def date_months)
  note t = C9_month_labels[of utcHost 1793707200000]
  have f: "firstRow (getDay utcHost 1793707200000) 3 = Some 0" using t by simp
  have c: "columnMonth utcHost 1793707200000 3 = sundayMonth 20760 3"
    using t regular_utcHost[of 1793707200000 84] unfolding d by simp
  show ?thesis using l s f c regular_utcHost[of 1793707200000 84] by simp
qed

text \<open>
  The claim as stated fails at noon UTC on 2026-11-03: the label of September stands at
  column 3, the week of Sunday 2026-09-06, although Tuesday 2026-09-01 already lies in
  column 2.
\<close>

theorem C9_first_column_counterexample:
  "(monthShort 8, 3) \<in> set (getMonthLabels utcHost 1793707200000)
   \<and> monthShort 8 = ''Sep''
   \<and> buildHeatmapCells utcHost 1793707200000 ! 2 ! 2 =
       Some \<lparr>dateKey = ''2026-09-01'', col = 2, row = 2\<rparr>
   \<and> firstColumnOfMonth 20760 8 = Some 2"
proof -
  have l: "getMonthLabels utcHost 1793707200000 =
       [(''Aug'', 0), (''Sep'', 3), (''Oct'', 7), (''Nov'', 11)]"
    by (simp add: labels_regular regular_utcHost localDay_utcHost labels_eval)
  have g: "buildHeatmapCells utcHost 1793707200000 ! 2 ! 2 =
       Some \<lparr>dateKey = ''2026-09-01'', col = 2, row = 2\<rparr>"
    by (simp add: heatmap_regular regular_utcHost localDay_utcHost gridOfDay_def weekDay_def
        date_keys)
  have f: "firstColumnOfMonth 20760 8 = Some 2"
    by (simp add: firstColumnOfMonth_def monthAppears_def agoOf_def weekDay_def date_months
        upt_conv_Cons)
  show ?thesis using l g f by (simp add: monthShort_def)
qed

section \<open>Weekly trend\<close>

lemma getWeekEntries_map_filter:
  "getWeekEntries h today data s =
     List.map_filter (\<lambda>i. map_of data (getDateKey h (daysAgo h today (int i)))) [s..<s + 7]"
proof -
  have "fold (\<lambda>i entries.
             case map_of data (getDateKey h (daysAgo h today (int i))) of
               None \<Rightarrow> entries
             | Some entry \<Rightarrow> entries @ [entry]) is acc =
        acc @ List.map_filter (\<lambda>i. map_of data (getDateKey h (daysAgo h today (int i)))) is"
    for "is" acc
  proof (induction "is" arbitrary: acc)
    case Nil
    show ?case by (simp add: map_filter_simps)
  next
    case (Cons i "is")
    show ?case
      unfolding fold_simps Cons.IH
      by (cases "map_of data (getDateKey h (daysAgo h today (int i)))")
        (simp_all add: map_filter_simps)
  qed
  then show ?thesis by (simp add: getWeekEntries_def)
qed

lemma map_filter_cong:
  "(\<And>x. x \<in> set xs \<Longrightarrow> f x = g x) \<Longrightarrow> List.map_filter f xs = List.map_filter g xs"
proof (induction xs)
  case Nil
  show ?case by simp
next
  case (Cons a xs)
  have "f a = g a" using Cons.prems by simp
  moreover have "List.map_filter f xs = List.map_filter g xs" using Cons by simp
  ultimately show ?case by (cases "g a") simp_all
qed

text \<open>
  Where the local time of today exists on each of the days that the two weeks reach, a
  week's entries are the records of its seven calendar days.
\<close>

lemma weeks_regular:
  assumes "regular h today n" "s + 7 \<le> n"
  shows "getWeekEntries h today data s = weekRecords (localDay h today) data s"
  unfolding getWeekEntries_map_filter weekRecords_def
proof (rule map_filter_cong)
  fix i assume "i \<in> set [s..<s + 7]"
  then have "i < n" using assms(2) by simp
  then show "map_of data (getDateKey h (daysAgo h today (int i))) =
             map_of data (dayKey (localDay h today - int i))"
    by (simp add: key_regular[OF assms(1)])
qed

lemma weeks_utcHost:
  "getWeekEntries utcHost t data s = weekRecords (t div 86400000) data s"
  using weeks_regular[of utcHost t "s + 7" s data]
  by (simp add: regular_utcHost localDay_utcHost)

lemmas week_eval = weekRecords_def map_filter_simps upt_conv_Cons date_keys

text \<open>
  Claim C4, at noon UTC on 2026-11-03 and a history whose record of today carries the
  label "constructor", with an "Angry" record a week earlier: the label is not in the catalog, so by the table the
  means are 5 and 1 and the trend is upward; the lookup in \<open>POSITIVITY\<close> finds the
  inherited property, the average is \<open>NaN\<close>, and the code reports a steady trend.
\<close>

theorem C4_inherited_label:
  "localDay utcHost 1793707200000 = 20760
   \<and> weekRecords 20760 [(''2026-11-03'', \<lparr>emoji = [], label = ''constructor'', color = [], timestamp = []\<rparr>), (''2026-10-27'', \<lparr>emoji = [], label = ''Angry'', color = [], timestamp = []\<rparr>)] 0 = [\<lparr>emoji = [], label = ''constructor'', color = [], timestamp = []\<rparr>]
   \<and> weekRecords 20760 [(''2026-11-03'', \<lparr>emoji = [], label = ''constructor'', color = [], timestamp = []\<rparr>), (''2026-10-27'', \<lparr>emoji = [], label = ''Angry'', color = [], timestamp = []\<rparr>)] 7 = [\<lparr>emoji = [], label = ''Angry'', color = [], timestamp = []\<rparr>]
   \<and> meanScore [\<lparr>emoji = [], label = ''constructor'', color = [], timestamp = []\<rparr>] = 5 \<and> meanScore [\<lparr>emoji = [], label = ''Angry'', color = [], timestamp = []\<rparr>] = 1
   \<and> verdictByTable 20760 [(''2026-11-03'', \<lparr>emoji = [], label = ''constructor'', color = [], timestamp = []\<rparr>), (''2026-10-27'', \<lparr>emoji = [], label = ''Angry'', color = [], timestamp = []\<rparr>)] = Upward
   \<and> avgPositivity [\<lparr>emoji = [], label = ''constructor'', color = [], timestamp = []\<rparr>] = NaN \<and> avgPositivity [\<lparr>emoji = [], label = ''Angry'', color = [], timestamp = []\<rparr>] = Num 1
   \<and> trendOf utcHost 1793707200000 [(''2026-11-03'', \<lparr>emoji = [], label = ''constructor'', color = [], timestamp = []\<rparr>), (''2026-10-27'', \<lparr>emoji = [], label = ''Angry'', color = [], timestamp = []\<rparr>)] = Steady"
proof -
  have w0: "weekRecords 20760 [(''2026-11-03'', \<lparr>emoji = [], label = ''constructor'', color = [], timestamp = []\<rparr>), (''2026-10-27'', \<lparr>emoji = [], label = ''Angry'', color = [], timestamp = []\<rparr>)] 0 = [\<lparr>emoji = [], label = ''constructor'', color = [], timestamp = []\<rparr>]"
    by (simp add: week_eval)
  have w7: "weekRecords 20760 [(''2026-11-03'', \<lparr>emoji = [], label = ''constructor'', color = [], timestamp = []\<rparr>), (''2026-10-27'', \<lparr>emoji = [], label = ''Angry'', color = [], timestamp = []\<rparr>)] 7 = [\<lparr>emoji = [], label = ''Angry'', color = [], timestamp = []\<rparr>]"
    by (simp add: week_eval)
  have m1: "meanScore [\<lparr>emoji = [], label = ''constructor'', color = [], timestamp = []\<rparr>] = 5" by (simp add: meanScore_def score_def POSITIVITY_own_def)
  have m2: "meanScore [\<lparr>emoji = [], label = ''Angry'', color = [], timestamp = []\<rparr>] = 1" by (simp add: meanScore_def score_def POSITIVITY_own_def)
  have v: "verdictByTable 20760 [(''2026-11-03'', \<lparr>emoji = [], label = ''constructor'', color = [], timestamp = []\<rparr>), (''2026-10-27'', \<lparr>emoji = [], label = ''Angry'', color = [], timestamp = []\<rparr>)] = Upward"
    by (simp add: verdictByTable_def w0 w7 m1 m2)
  have a1: "avgPositivity [\<lparr>emoji = [], label = ''constructor'', color = [], timestamp = []\<rparr>] = NaN"
    by (simp add: avgPositivity_def addScore_def POSITIVITY_def POSITIVITY_own_def
        Object_prototype_keys_def)
  have a2: "avgPositivity [\<lparr>emoji = [], label = ''Angry'', color = [], timestamp = []\<rparr>] = Num 1"
    by (simp add: avgPositivity_def addScore_def POSITIVITY_def POSITIVITY_own_def fl_eval
        cong: let_weak_cong)
  have t: "trendOf utcHost 1793707200000 [(''2026-11-03'', \<lparr>emoji = [], label = ''constructor'', color = [], timestamp = []\<rparr>), (''2026-10-27'', \<lparr>emoji = [], label = ''Angry'', color = [], timestamp = []\<rparr>)] = Steady"
    by (simp add: trendOf_def weeks_utcHost w0 w7 a1 a2 trendDetermination_def)
  have d: "localDay utcHost 1793707200000 = 20760" by (simp add: localDay_utcHost)
  show ?thesis using d w0 w7 m1 m2 v a1 a2 t by blast
qed

text \<open>
  Away from the inherited property names the code follows the table, in binary64
  arithmetic: the averages are the rounded means and the band is added with rounding.
\<close>

lemma POSITIVITY_ordinary:
  "l \<notin> set Object_prototype_keys \<Longrightarrow>
   (case POSITIVITY l of Own v \<Rightarrow> v = score l | Undefined \<Rightarrow> score l = 5 | Inherited \<Rightarrow> False)"
  by (simp add: POSITIVITY_def score_def split: option.splits)

lemma fold_addScore_ordinary:
  "\<forall>e \<in> set es. label e \<notin> set Object_prototype_keys \<Longrightarrow>
   fold addScore es (NumberAcc s) = NumberAcc (s + sum_list (map (\<lambda>e. score (label e)) es))"
proof (induction es arbitrary: s)
  case Nil
  show ?case by simp
next
  case (Cons e es)
  have "addScore e (NumberAcc s) = NumberAcc (s + score (label e))"
    using POSITIVITY_ordinary[of "label e"] Cons.prems
    by (simp add: addScore_def split: property.splits)
  then show ?case using Cons by (simp add: add.assoc)
qed

lemma avgPositivity_ordinary:
  "\<forall>e \<in> set es. label e \<notin> set Object_prototype_keys \<Longrightarrow>
   avgPositivity es = Num (if es = [] then 0 else fl (meanScore es))"
  by (simp add: avgPositivity_def fold_addScore_ordinary meanScore_def)

lemma trendOf_ordinary:
  assumes "regular h today 14"
    and "\<forall>e \<in> set (weekRecords (localDay h today) data 0)
               \<union> set (weekRecords (localDay h today) data 7).
             label e \<notin> set Object_prototype_keys"
  shows "trendOf h today data =
     (let currentWeek = weekRecords (localDay h today) data 0;
          prevWeek = weekRecords (localDay h today) data 7
      in if currentWeek = [] \<and> prevWeek = [] then NoData
         else if currentWeek = [] then NothingThisWeek
         else if prevWeek = [] then KeepLogging
         else if fl (meanScore currentWeek) > fl (fl (meanScore prevWeek) + 1 / 2) then Upward
         else if fl (meanScore currentWeek) < fl (fl (meanScore prevWeek) - 1 / 2) then Downward
         else Steady)"
proof -
  let ?dn = "localDay h today"
  have a: "avgPositivity (weekRecords ?dn data 0) =
      Num (if weekRecords ?dn data 0 = [] then 0 else fl (meanScore (weekRecords ?dn data 0)))"
    using assms(2) by (intro avgPositivity_ordinary) simp
  have b: "avgPositivity (weekRecords ?dn data 7) =
      Num (if weekRecords ?dn data 7 = [] then 0 else fl (meanScore (weekRecords ?dn data 7)))"
    using assms(2) by (intro avgPositivity_ordinary) simp
  have w0: "getWeekEntries h today data 0 = weekRecords ?dn data 0"
    by (rule weeks_regular[OF assms(1)]) simp
  have w7: "getWeekEntries h today data 7 = weekRecords ?dn data 7"
    by (rule weeks_regular[OF assms(1)]) simp
  show ?thesis
    unfolding trendOf_def w0 w7 Let_def a b trendDetermination_def
    by simp
qed

text \<open>
  The rounding shows at a tie, at noon UTC on 2026-11-03: means of 7/3 and 11/6 differ by exactly 1/2, which the
  table calls steady, while the rounded sum \<open>prevAvg + 0.5\<close> lies below the rounded
  \<open>currentAvg\<close>.
\<close>

lemma trend_at_tie:
  "weekRecords 20760
     [(''2026-11-03'', \<lparr>emoji = [], label = ''Anxious'', color = [], timestamp = []\<rparr>),
      (''2026-11-02'', \<lparr>emoji = [], label = ''Sad'', color = [], timestamp = []\<rparr>),
      (''2026-11-01'', \<lparr>emoji = [], label = ''Sad'', color = [], timestamp = []\<rparr>),
      (''2026-10-27'', \<lparr>emoji = [], label = ''Sad'', color = [], timestamp = []\<rparr>),
      (''2026-10-26'', \<lparr>emoji = [], label = ''Sad'', color = [], timestamp = []\<rparr>),
      (''2026-10-25'', \<lparr>emoji = [], label = ''Sad'', color = [], timestamp = []\<rparr>),
      (''2026-10-24'', \<lparr>emoji = [], label = ''Sad'', color = [], timestamp = []\<rparr>),
      (''2026-10-23'', \<lparr>emoji = [], label = ''Sad'', color = [], timestamp = []\<rparr>),
      (''2026-10-22'', \<lparr>emoji = [], label = ''Angry'', color = [], timestamp = []\<rparr>)] 0 = [\<lparr>emoji = [], label = ''Anxious'', color = [], timestamp = []\<rparr>, \<lparr>emoji = [], label = ''Sad'', color = [], timestamp = []\<rparr>, \<lparr>emoji = [], label = ''Sad'', color = [], timestamp = []\<rparr>]
   \<and> weekRecords 20760
     [(''2026-11-03'', \<lparr>emoji = [], label = ''Anxious'', color = [], timestamp = []\<rparr>),
      (''2026-11-02'', \<lparr>emoji = [], label = ''Sad'', color = [], timestamp = []\<rparr>),
      (''2026-11-01'', \<lparr>emoji = [], label = ''Sad'', color = [], timestamp = []\<rparr>),
      (''2026-10-27'', \<lparr>emoji = [], label = ''Sad'', color = [], timestamp = []\<rparr>),
      (''2026-10-26'', \<lparr>emoji = [], label = ''Sad'', color = [], timestamp = []\<rparr>),
      (''2026-10-25'', \<lparr>emoji = [], label = ''Sad'', color = [], timestamp = []\<rparr>),
      (''2026-10-24'', \<lparr>emoji = [], label = ''Sad'', color = [], timestamp = []\<rparr>),
      (''2026-10-23'', \<lparr>emoji = [], label = ''Sad'', color = [], timestamp = []\<rparr>),
      (''2026-10-22'', \<lparr>emoji = [], label = ''Angry'', color = [], timestamp = []\<rparr>)] 7 = [\<lparr>emoji = [], label = ''Sad'', color = [], timestamp = []\<rparr>, \<lparr>emoji = [], label = ''Sad'', color = [], timestamp = []\<rparr>, \<lparr>emoji = [], label = ''Sad'', color = [], timestamp = []\<rparr>, \<lparr>emoji = [], label = ''Sad'', color = [], timestamp = []\<rparr>, \<lparr>emoji = [], label = ''Sad'', color = [], timestamp = []\<rparr>, \<lparr>emoji = [], label = ''Angry'', color = [], timestamp = []\<rparr>]
   \<and> meanScore [\<lparr>emoji = [], label = ''Anxious'', color = [], timestamp = []\<rparr>, \<lparr>emoji = [], label = ''Sad'', color = [], timestamp = []\<rparr>, \<lparr>emoji = [], label = ''Sad'', color = [], timestamp = []\<rparr>] = 7 / 3
   \<and> meanScore [\<lparr>emoji = [], label = ''Sad'', color = [], timestamp = []\<rparr>, \<lparr>emoji = [], label = ''Sad'', color = [], timestamp = []\<rparr>, \<lparr>emoji = [], label = ''Sad'', color = [], timestamp = []\<rparr>, \<lparr>emoji = [], label = ''Sad'', color = [], timestamp = []\<rparr>, \<lparr>emoji = [], label = ''Sad'', color = [], timestamp = []\<rparr>, \<lparr>emoji = [], label = ''Angry'', color = [], timestamp = []\<rparr>] = 11 / 6
   \<and> verdictByTable 20760
     [(''2026-11-03'', \<lparr>emoji = [], label = ''Anxious'', color = [], timestamp = []\<rparr>),
      (''2026-11-02'', \<lparr>emoji = [], label = ''Sad'', color = [], timestamp = []\<rparr>),
      (''2026-11-01'', \<lparr>emoji = [], label = ''Sad'', color = [], timestamp = []\<rparr>),
      (''2026-10-27'', \<lparr>emoji = [], label = ''Sad'', color = [], timestamp = []\<rparr>),
      (''2026-10-26'', \<lparr>emoji = [], label = ''Sad'', color = [], timestamp = []\<rparr>),
      (''2026-10-25'', \<lparr>emoji = [], label = ''Sad'', color = [], timestamp = []\<rparr>),
      (''2026-10-24'', \<lparr>emoji = [], label = ''Sad'', color = [], timestamp = []\<rparr>),
      (''2026-10-23'', \<lparr>emoji = [], label = ''Sad'', color = [], timestamp = []\<rparr>),
      (''2026-10-22'', \<lparr>emoji = [], label = ''Angry'', color = [], timestamp = []\<rparr>)] = Steady
   \<and> trendOf utcHost 1793707200000
     [(''2026-11-03'', \<lparr>emoji = [], label = ''Anxious'', color = [], timestamp = []\<rparr>),
      (''2026-11-02'', \<lparr>emoji = [], label = ''Sad'', color = [], timestamp = []\<rparr>),
      (''2026-11-01'', \<lparr>emoji = [], label = ''Sad'', color = [], timestamp = []\<rparr>),
      (''2026-10-27'', \<lparr>emoji = [], label = ''Sad'', color = [], timestamp = []\<rparr>),
      (''2026-10-26'', \<lparr>emoji = [], label = ''Sad'', color = [], timestamp = []\<rparr>),
      (''2026-10-25'', \<lparr>emoji = [], label = ''Sad'', color = [], timestamp = []\<rparr>),
      (''2026-10-24'', \<lparr>emoji = [], label = ''Sad'', color = [], timestamp = []\<rparr>),
      (''2026-10-23'', \<lparr>emoji = [], label = ''Sad'', color = [], timestamp = []\<rparr>),
      (''2026-10-22'', \<lparr>emoji = [], label = ''Angry'', color = [], timestamp = []\<rparr>)] = Upward"
proof -
  have w0: "weekRecords 20760
     [(''2026-11-03'', \<lparr>emoji = [], label = ''Anxious'', color = [], timestamp = []\<rparr>),
      (''2026-11-02'', \<lparr>emoji = [], label = ''Sad'', color = [], timestamp = []\<rparr>),
      (''2026-11-01'', \<lparr>emoji = [], label = ''Sad'', color = [], timestamp = []\<rparr>),
      (''2026-10-27'', \<lparr>emoji = [], label = ''Sad'', color = [], timestamp = []\<rparr>),
      (''2026-10-26'', \<lparr>emoji = [], label = ''Sad'', color = [], timestamp = []\<rparr>),
      (''2026-10-25'', \<lparr>emoji = [], label = ''Sad'', color = [], timestamp = []\<rparr>),
      (''2026-10-24'', \<lparr>emoji = [], label = ''Sad'', color = [], timestamp = []\<rparr>),
      (''2026-10-23'', \<lparr>emoji = [], label = ''Sad'', color = [], timestamp = []\<rparr>),
      (''2026-10-22'', \<lparr>emoji = [], label = ''Angry'', color = [], timestamp = []\<rparr>)] 0 = [\<lparr>emoji = [], label = ''Anxious'', color = [], timestamp = []\<rparr>, \<lparr>emoji = [], label = ''Sad'', color = [], timestamp = []\<rparr>, \<lparr>emoji = [], label = ''Sad'', color = [], timestamp = []\<rparr>]"
    by (simp add: week_eval)
  have w7: "weekRecords 20760
     [(''2026-11-03'', \<lparr>emoji = [], label = ''Anxious'', color = [], timestamp = []\<rparr>),
      (''2026-11-02'', \<lparr>emoji = [], label = ''Sad'', color = [], timestamp = []\<rparr>),
      (''2026-11-01'', \<lparr>emoji = [], label = ''Sad'', color = [], timestamp = []\<rparr>),
      (''2026-10-27'', \<lparr>emoji = [], label = ''Sad'', color = [], timestamp = []\<rparr>),
      (''2026-10-26'', \<lparr>emoji = [], label = ''Sad'', color = [], timestamp = []\<rparr>),
      (''2026-10-25'', \<lparr>emoji = [], label = ''Sad'', color = [], timestamp = []\<rparr>),
      (''2026-10-24'', \<lparr>emoji = [], label = ''Sad'', color = [], timestamp = []\<rparr>),
      (''2026-10-23'', \<lparr>emoji = [], label = ''Sad'', color = [], timestamp = []\<rparr>),
      (''2026-10-22'', \<lparr>emoji = [], label = ''Angry'', color = [], timestamp = []\<rparr>)] 7 = [\<lparr>emoji = [], label = ''Sad'', color = [], timestamp = []\<rparr>, \<lparr>emoji = [], label = ''Sad'', color = [], timestamp = []\<rparr>, \<lparr>emoji = [], label = ''Sad'', color = [], timestamp = []\<rparr>, \<lparr>emoji = [], label = ''Sad'', color = [], timestamp = []\<rparr>, \<lparr>emoji = [], label = ''Sad'', color = [], timestamp = []\<rparr>, \<lparr>emoji = [], label = ''Angry'', color = [], timestamp = []\<rparr>]"
    by (simp add: week_eval)
  have m1: "meanScore [\<lparr>emoji = [], label = ''Anxious'', color = [], timestamp = []\<rparr>, \<lparr>emoji = [], label = ''Sad'', color = [], timestamp = []\<rparr>, \<lparr>emoji = [], label = ''Sad'', color = [], timestamp = []\<rparr>] = 7 / 3"
    by (simp add: meanScore_def score_def POSITIVITY_own_def)
  have m2: "meanScore [\<lparr>emoji = [], label = ''Sad'', color = [], timestamp = []\<rparr>, \<lparr>emoji = [], label = ''Sad'', color = [], timestamp = []\<rparr>, \<lparr>emoji = [], label = ''Sad'', color = [], timestamp = []\<rparr>, \<lparr>emoji = [], label = ''Sad'', color = [], timestamp = []\<rparr>, \<lparr>emoji = [], label = ''Sad'', color = [], timestamp = []\<rparr>, \<lparr>emoji = [], label = ''Angry'', color = [], timestamp = []\<rparr>] = 11 / 6"
    by (simp add: meanScore_def score_def POSITIVITY_own_def)
  have v: "verdictByTable 20760
     [(''2026-11-03'', \<lparr>emoji = [], label = ''Anxious'', color = [], timestamp = []\<rparr>),
      (''2026-11-02'', \<lparr>emoji = [], label = ''Sad'', color = [], timestamp = []\<rparr>),
      (''2026-11-01'', \<lparr>emoji = [], label = ''Sad'', color = [], timestamp = []\<rparr>),
      (''2026-10-27'', \<lparr>emoji = [], label = ''Sad'', color = [], timestamp = []\<rparr>),
      (''2026-10-26'', \<lparr>emoji = [], label = ''Sad'', color = [], timestamp = []\<rparr>),
      (''2026-10-25'', \<lparr>emoji = [], label = ''Sad'', color = [], timestamp = []\<rparr>),
      (''2026-10-24'', \<lparr>emoji = [], label = ''Sad'', color = [], timestamp = []\<rparr>),
      (''2026-10-23'', \<lparr>emoji = [], label = ''Sad'', color = [], timestamp = []\<rparr>),
      (''2026-10-22'', \<lparr>emoji = [], label = ''Angry'', color = [], timestamp = []\<rparr>)] = Steady"
    by (simp add: verdictByTable_def w0 w7 m1 m2)
  have f: "fl (7 / 3) > fl (fl (11 / 6) + 1 / 2)"
    by (simp add: fl_eval cong: let_weak_cong)
  have o: "\<forall>e \<in> set [\<lparr>emoji = [], label = ''Anxious'', color = [], timestamp = []\<rparr>, \<lparr>emoji = [], label = ''Sad'', color = [], timestamp = []\<rparr>, \<lparr>emoji = [], label = ''Sad'', color = [], timestamp = []\<rparr>] \<union> set [\<lparr>emoji = [], label = ''Sad'', color = [], timestamp = []\<rparr>, \<lparr>emoji = [], label = ''Sad'', color = [], timestamp = []\<rparr>, \<lparr>emoji = [], label = ''Sad'', color = [], timestamp = []\<rparr>, \<lparr>emoji = [], label = ''Sad'', color = [], timestamp = []\<rparr>, \<lparr>emoji = [], label = ''Sad'', color = [], timestamp = []\<rparr>, \<lparr>emoji = [], label = ''Angry'', color = [], timestamp = []\<rparr>]. label e \<notin> set Object_prototype_keys"
    by (simp add: Object_prototype_keys_def)
  have t: "trendOf utcHost 1793707200000
     [(''2026-11-03'', \<lparr>emoji = [], label = ''Anxious'', color = [], timestamp = []\<rparr>),
      (''2026-11-02'', \<lparr>emoji = [], label = ''Sad'', color = [], timestamp = []\<rparr>),
      (''2026-11-01'', \<lparr>emoji = [], label = ''Sad'', color = [], timestamp = []\<rparr>),
      (''2026-10-27'', \<lparr>emoji = [], label = ''Sad'', color = [], timestamp = []\<rparr>),
      (''2026-10-26'', \<lparr>emoji = [], label = ''Sad'', color = [], timestamp = []\<rparr>),
      (''2026-10-25'', \<lparr>emoji = [], label = ''Sad'', color = [], timestamp = []\<rparr>),
      (''2026-10-24'', \<lparr>emoji = [], label = ''Sad'', color = [], timestamp = []\<rparr>),
      (''2026-10-23'', \<lparr>emoji = [], label = ''Sad'', color = [], timestamp = []\<rparr>),
      (''2026-10-22'', \<lparr>emoji = [], label = ''Angry'', color = [], timestamp = []\<rparr>)] = Upward"
    using f o by (simp add: trendOf_ordinary regular_utcHost localDay_utcHost w0 w7 m1 m2)
  show ?thesis using w0 w7 m1 m2 v t by blast
qed

section \<open>The renders\<close>














end
